theory Spec2Isabelle
  imports Main "HOL-Library.Sublist"
begin

section \<open>Data model\<close>

text \<open>
  The development embeds \<^verbatim>\<open>src/swe/codeEditingAgent.ts\<close> (class
  \<^verbatim>\<open>CodeEditingAgent\<close>) and \<^verbatim>\<open>src/swe/codeEditor.ts\<close> (class
  \<^verbatim>\<open>CodeEditor\<close>).

  A JavaScript string is a \<^typ>\<open>string\<close>, a list of code units below 256; a value that
  may be \<^verbatim>\<open>null\<close> or \<^verbatim>\<open>undefined\<close> is an \<^typ>\<open>'a option\<close>; a thrown \<^verbatim>\<open>Error\<close> is
  the left injection of a sum, holding the error's \<^verbatim>\<open>message\<close>.
\<close>

type_synonym 'a result = "string + 'a"

text \<open>The value destructured from \<^verbatim>\<open>execCommand\<close>: a numeric exit code, taken as an
  integer of either sign, and the two captured output texts.\<close>

record CommandResult =
  exitCode :: int
  stdout :: string
  stderr :: string

text \<open>\<^verbatim>\<open>ProjectInfo\<close>, with the fields the two classes read. The field \<^verbatim>\<open>compile\<close> is
  named \<open>compileCmd\<close> here, since \<open>compile\<close> is the method below.
  \<^verbatim>\<open>languageTools\<close> is only ever used through
  \<^verbatim>\<open>languageTools?.installPackage\<close>, so it is recorded as present or absent.\<close>

record ProjectInfo =
  baseDir :: string
  compileCmd :: string
  test :: "string option"
  staticAnalysis :: "string option"
  languageTools :: bool

record SelectedFile =
  path :: string

record SelectFilesResponse =
  primaryFiles :: "SelectedFile list"
  secondaryFiles :: "SelectedFile list"

text \<open>\<^verbatim>\<open>CompileErrorAnalysis\<close>: both fields are optional.\<close>

record CompileErrorAnalysis =
  additionalFiles :: "string list option"
  installPackages :: "string list option"

text \<open>JavaScript truthiness of an optional string: \<^verbatim>\<open>null\<close>, \<^verbatim>\<open>undefined\<close> and the
  empty string are falsy.\<close>

definition truthy :: "string option \<Rightarrow> bool" where
  "truthy v = (case v of None \<Rightarrow> False | Some s \<Rightarrow> s \<noteq> [])"

text \<open>The text of an optional string where a string is expected (a template literal, a
  command): \<^verbatim>\<open>null\<close> prints as its name. The optional fields of a project are
  interpolated only behind the guards that make them present.\<close>

definition interpolate :: "string option \<Rightarrow> string" where
  "interpolate v = (case v of None \<Rightarrow> ''null'' | Some s \<Rightarrow> s)"

definition tab :: string where
  "tab = [CHR 0x09]"

definition dquote :: string where
  "dquote = [CHR 0x22]"

section \<open>The trace of calls and the environment\<close>

text \<open>
  Every call that leaves the two classes, and every entry into one of their own methods
  that a stage invokes, is appended to a trace. Logging, tracing spans and cost
  accounting are left out: they return nothing the control flow reads (the cost
  accounting of the editor sits in a \<^verbatim>\<open>try\<close> whose \<^verbatim>\<open>catch\<close> only logs). The working
  directory passed to \<^verbatim>\<open>execCommand\<close> by \<^verbatim>\<open>compile\<close> is not recorded.
\<close>

datatype event =
    DetectProjectInfo
  | SetWorkingDirectory string
  | SelectFilesToEdit string
  | GetMultipleFileContentsAsXml "string list"
  | GenerateText string
  | InstallPackage string
  | Compile
  | RunStaticAnalysis
  | RunTests
  | TestLoop
  | EditFilesToMeetRequirements string "string option list"
  | WriteFile string string
  | Mkdir string
  | WriteFileSync string
  | ExecCommand string
  | GetFilesAddedInHeadCommit
  | AddAllTrackedAndCommit string
  | AnalyzeCompileErrors string "string list"
  | ExtractFilenames string
  | ListFilesRecursively
  | GenerateTextAsJson string

type_synonym trace = "event list"

text \<open>
  The collaborators are not part of the two files. Each is a parameter: a function from
  the trace so far, whose last event is the call itself with its arguments, to the value
  the call returns. A collaborator may therefore answer differently at every call.
  Two collaborators may throw, because the source has a handler written for their error:
  \<^verbatim>\<open>writeFileSync\<close>, whose error the editor catches and rethrows, and
  \<^verbatim>\<open>addAllTrackedAndCommit\<close>, which the static-analysis loop calls in a \<^verbatim>\<open>try\<close> and
  again in its \<^verbatim>\<open>catch\<close>. \<open>writeFileSyncError\<close> and \<open>addAllTrackedAndCommitError\<close>
  are the message of the error the call throws, if it throws. Every other collaborator
  returns a value of its result type; the other errors of the model are those the two files
  throw themselves (lines 35, 76, 152, 166 and 175 of the agent, lines 64, 76 and 105 of
  the editor). The three \<open>llmConfig\<close> fields and the three \<open>processEnv\<close> fields are the
  keys read from \<^verbatim>\<open>currentUser().llmConfig\<close> and \<^verbatim>\<open>process.env\<close>.
\<close>

record env =
  detectProjectInfo :: "trace \<Rightarrow> ProjectInfo list"
  selectFilesToEdit :: "trace \<Rightarrow> SelectFilesResponse"
  getMultipleFileContentsAsXml :: "trace \<Rightarrow> string"
  generateText :: "trace \<Rightarrow> string"
  generateTextAsJson :: "trace \<Rightarrow> string list"
  listFilesRecursively :: "trace \<Rightarrow> string list"
  execCommand :: "trace \<Rightarrow> CommandResult"
  analyzeCompileErrors :: "trace \<Rightarrow> CompileErrorAnalysis"
  getFilesAddedInHeadCommit :: "trace \<Rightarrow> string list"
  addAllTrackedAndCommitError :: "trace \<Rightarrow> string option"
  writeFileSyncError :: "trace \<Rightarrow> string option"
  llmConfigAnthropicKey :: "string option"
  llmConfigDeepseekKey :: "string option"
  llmConfigOpenaiKey :: "string option"
  processEnvAnthropicKey :: "string option"
  processEnvDeepseekKey :: "string option"
  processEnvOpenaiKey :: "string option"
  agentId :: string
  dateNow :: "trace \<Rightarrow> string"
  basePrompt :: string

section \<open>The command primitives of \<^verbatim>\<open>CodeEditingAgent\<close>\<close>

text \<open>The message \<^verbatim>\<open>compile\<close> builds from the command and its output (lines 139-147).\<close>

definition compileOutput :: "ProjectInfo \<Rightarrow> CommandResult \<Rightarrow> string" where
  "compileOutput projectInfo r =
     ''<compile_output>\<newline>'' @ tab @ ''<command>'' @ compileCmd projectInfo @ ''</command>\<newline>'' @
     tab @ ''<stdout>\<newline>'' @ tab @ stdout r @ ''\<newline>'' @ tab @ ''</stdout>\<newline>'' @
     tab @ ''<stderr>\<newline>'' @ tab @ stderr r @ ''\<newline>'' @ tab @ ''</stderr>\<newline>'' @
     ''</compile_output>''"

text \<open>\<^verbatim>\<open>compile\<close> (lines 132-154): run the compile command, throw the message when
  \<^verbatim>\<open>exitCode > 0\<close>.\<close>

definition compile :: "env \<Rightarrow> ProjectInfo \<Rightarrow> trace \<Rightarrow> unit result \<times> trace" where
  "compile e projectInfo tr =
     (let tr1 = tr @ [Compile, ExecCommand (compileCmd projectInfo)];
          r = execCommand e tr1
      in if exitCode r > 0 then (Inl (compileOutput projectInfo r), tr1)
         else (Inr (), tr1))"

text \<open>The message of \<^verbatim>\<open>runStaticAnalysis\<close> (line 164). The command it prints is
  \<^verbatim>\<open>projectInfo.compile\<close>, and the captured standard output follows the empty
  \<^verbatim>\<open><stdout></stdout>\<close> element, as in the source.\<close>

definition staticAnalysisOutput :: "ProjectInfo \<Rightarrow> CommandResult \<Rightarrow> string" where
  "staticAnalysisOutput projectInfo r =
     ''<static_analysis_output><command>'' @ compileCmd projectInfo @
     ''</command><stdout></stdout>'' @ stdout r @ ''<stderr>'' @ stderr r @
     ''</stderr></static_analysis_output>''"

text \<open>\<^verbatim>\<open>runStaticAnalysis\<close> (lines 161-168).\<close>

definition runStaticAnalysis :: "env \<Rightarrow> ProjectInfo \<Rightarrow> trace \<Rightarrow> unit result \<times> trace" where
  "runStaticAnalysis e projectInfo tr =
     (let tr0 = tr @ [RunStaticAnalysis]
      in if \<not> truthy (staticAnalysis projectInfo) then (Inr (), tr0)
         else
           (let tr1 = tr0 @ [ExecCommand (interpolate (staticAnalysis projectInfo))];
                r = execCommand e tr1
            in if exitCode r > 0 then (Inl (staticAnalysisOutput projectInfo r), tr1)
               else (Inr (), tr1)))"

text \<open>The message of \<^verbatim>\<open>runTests\<close> (line 173).\<close>

definition testOutput :: "ProjectInfo \<Rightarrow> CommandResult \<Rightarrow> string" where
  "testOutput projectInfo r =
     ''<test_output><command>'' @ interpolate (test projectInfo) @
     ''</command><stdout></stdout>'' @ stdout r @ ''<stderr>'' @ stderr r @
     ''</stderr></test_output>''"

text \<open>\<^verbatim>\<open>runTests\<close> (lines 170-177).\<close>

definition runTests :: "env \<Rightarrow> ProjectInfo \<Rightarrow> trace \<Rightarrow> unit result \<times> trace" where
  "runTests e projectInfo tr =
     (let tr0 = tr @ [RunTests]
      in if \<not> truthy (test projectInfo) then (Inr (), tr0)
         else
           (let tr1 = tr0 @ [ExecCommand (interpolate (test projectInfo))];
                r = execCommand e tr1
            in if exitCode r > 0 then (Inl (testOutput projectInfo r), tr1)
               else (Inr (), tr1)))"

section \<open>\<^verbatim>\<open>CodeEditor.editFilesToMeetRequirements\<close>\<close>

text \<open>The characters \<^verbatim>\<open>String.prototype.trim\<close> strips, among the code units below 256:
  tab, line feed, vertical tab, form feed, carriage return, space and no-break space.\<close>

definition isWhiteSpace :: "char \<Rightarrow> bool" where
  "isWhiteSpace c =
     (c \<in> set [CHR 0x09, CHR 0x0A, CHR 0x0B, CHR 0x0C, CHR 0x0D, CHR 0x20, CHR 0xA0])"

definition trim :: "string \<Rightarrow> string" where
  "trim s = rev (dropWhile isWhiteSpace (rev (dropWhile isWhiteSpace s)))"

text \<open>The predicate of the filter on line 36, \<^verbatim>\<open>file?.trim().length\<close>: undefined for a
  null entry, else the length of the trimmed text; kept when truthy, that is nonzero.\<close>

definition keepFile :: "string option \<Rightarrow> bool" where
  "keepFile file = (case file of None \<Rightarrow> False | Some s \<Rightarrow> length (trim s) \<noteq> 0)"

text \<open>\<^verbatim>\<open>Array.prototype.join\<close>.\<close>

fun join :: "string \<Rightarrow> string list \<Rightarrow> string" where
  "join sep [] = []"
| "join sep [x] = x"
| "join sep (x # y # ys) = x @ sep @ join sep (y # ys)"

text \<open>\<^verbatim>\<open>a || b\<close> on two optional strings.\<close>

definition orElse :: "string option \<Rightarrow> string option \<Rightarrow> string option" where
  "orElse a b = (if truthy a then a else b)"

definition messageFilePath :: string where
  "messageFilePath = ''.aider-requirements''"

text \<open>The command of lines 79-81, from the model argument, the history file and the
  filtered file list.\<close>

definition aiderCommand :: "string \<Rightarrow> string \<Rightarrow> string option list \<Rightarrow> string" where
  "aiderCommand modelArg llmHistoryFile filesToEdit =
     ''aider --no-check-update --yes '' @ modelArg @ '' --llm-history-file='' @ dquote @
     llmHistoryFile @ dquote @ '' --message-file='' @ messageFilePath @ '' '' @
     join '' '' (map (\<lambda>file. dquote @ interpolate file @ dquote) filesToEdit)"

text \<open>Lines 67-105, once a model is chosen: create the history file, run the command,
  throw its output when \<^verbatim>\<open>exitCode > 0\<close>.\<close>

definition runAider :: "env \<Rightarrow> string \<Rightarrow> string option list \<Rightarrow> trace \<Rightarrow> unit result \<times> trace" where
  "runAider e modelArg filesToEdit tr =
     (let tr1 = tr @ [Mkdir ''.nous/aider/llm-history''];
          llmHistoryFile = ''.nous/aider/llm-history/'' @ agentId e @ ''-'' @ dateNow e tr1;
          tr2 = tr1 @ [WriteFileSync llmHistoryFile]
      in case writeFileSyncError e tr2 of
           Some m \<Rightarrow>
             (Inl (''Fatal Error reading/writing Aider llmH-history-file. Error: '' @ m), tr2)
         | None \<Rightarrow>
             (let cmd = aiderCommand modelArg llmHistoryFile filesToEdit;
                  tr3 = tr2 @ [ExecCommand cmd];
                  r = execCommand e tr3
              in if exitCode r > 0 then (Inl (stdout r @ '' '' @ stderr r), tr3)
                 else (Inr (), tr3)))"

text \<open>\<^verbatim>\<open>editFilesToMeetRequirements\<close> (lines 24-106).\<close>

definition editFilesToMeetRequirements ::
  "env \<Rightarrow> string \<Rightarrow> string option list \<Rightarrow> trace \<Rightarrow> unit result \<times> trace" where
  "editFilesToMeetRequirements e requirements filesToEdit tr =
     (let tr1 = tr @ [EditFilesToMeetRequirements requirements filesToEdit,
                      WriteFile messageFilePath requirements];
          filesToEdit1 = filter keepFile filesToEdit;
          anthropicKey = orElse (llmConfigAnthropicKey e) (processEnvAnthropicKey e);
          deepSeekKey = orElse (llmConfigDeepseekKey e) (processEnvDeepseekKey e);
          openaiKey = orElse (llmConfigOpenaiKey e) (processEnvOpenaiKey e)
      in if truthy anthropicKey then runAider e ''--sonnet'' filesToEdit1 tr1
         else if truthy deepSeekKey then
           runAider e ''--model deepseek/deepseek-coder'' filesToEdit1 tr1
         else if truthy openaiKey then runAider e [] filesToEdit1 tr1
         else (Inl ''Aider code editing requires a key for Anthropic, Deepseek or OpenAI'', tr1))"

section \<open>The edit-compile loop of \<^verbatim>\<open>runCodeEditWorkflow\<close>\<close>

text \<open>The variables the loop of lines 69-101 reads and writes.\<close>

record loopState =
  initialSelectedFiles :: "string list"
  errorAnalysis :: "CompileErrorAnalysis option"
  compileErrorOutput :: "string option"

text \<open>Reading a property of \<^verbatim>\<open>null\<close> throws a \<^verbatim>\<open>TypeError\<close>; this is the message
  Node gives it for line 76.\<close>

definition nullInstallPackages :: string where
  "nullInstallPackages = ''Cannot read properties of null (reading 'installPackages')''"

text \<open>Lines 77-79: one \<^verbatim>\<open>languageTools?.installPackage\<close> per package name.\<close>

fun installAll :: "ProjectInfo \<Rightarrow> string list \<Rightarrow> trace \<Rightarrow> trace" where
  "installAll projectInfo [] tr = tr"
| "installAll projectInfo (packageName # rest) tr =
     installAll projectInfo rest
       (if languageTools projectInfo then tr @ [InstallPackage packageName] else tr)"

text \<open>
  Lines 85-93, the second half of the \<^verbatim>\<open>try\<close>: call the editor, append the files of
  the head commit to \<^verbatim>\<open>initialSelectedFiles\<close>, compile, clear \<^verbatim>\<open>errorAnalysis\<close>. The
  list \<open>files\<close> is the round's own copy; the push of line 89 to it is never read.
\<close>

definition editThenCompile ::
  "env \<Rightarrow> ProjectInfo \<Rightarrow> string \<Rightarrow> string list \<Rightarrow> loopState \<Rightarrow> trace \<Rightarrow>
   unit result \<times> loopState \<times> trace" where
  "editThenCompile e projectInfo editRequirements files st tr =
     (case editFilesToMeetRequirements e editRequirements (map Some files) tr of
        (Inl m, tr1) \<Rightarrow> (Inl m, st, tr1)
      | (Inr _, tr1) \<Rightarrow>
          (let tr2 = tr1 @ [GetFilesAddedInHeadCommit];
               newFiles = getFilesAddedInHeadCommit e tr2;
               st1 = st\<lparr>initialSelectedFiles := initialSelectedFiles st @ newFiles\<rparr>
           in case compile e projectInfo tr2 of
                (Inl m, tr3) \<Rightarrow> (Inl m, st1, tr3)
              | (Inr _, tr3) \<Rightarrow> (Inr (), st1\<lparr>errorAnalysis := None\<rparr>, tr3)))"

text \<open>
  The body of the \<^verbatim>\<open>try\<close> (lines 71-93) on round \<open>i\<close>. It returns whether it threw,
  and the variables and the trace as they are at that moment. Line 76 reads
  \<^verbatim>\<open>errorAnalysis.installPackages\<close> without \<^verbatim>\<open>?.\<close>, so it throws when
  \<^verbatim>\<open>errorAnalysis\<close> is null.
\<close>

definition editCompileTry ::
  "env \<Rightarrow> ProjectInfo \<Rightarrow> string \<Rightarrow> nat \<Rightarrow> loopState \<Rightarrow> trace \<Rightarrow> unit result \<times> loopState \<times> trace" where
  "editCompileTry e projectInfo implementationRequirements i st tr =
     (let editRequirements = implementationRequirements @
            (if errorAnalysis st \<noteq> None
             then ''\<newline>Immediate task: Fix the following compile errors:\<newline>'' @
                  interpolate (compileErrorOutput st)
             else []);
          files = initialSelectedFiles st @
            (case errorAnalysis st of
               None \<Rightarrow> []
             | Some a \<Rightarrow> (case additionalFiles a of None \<Rightarrow> [] | Some extra \<Rightarrow> extra))
      in case errorAnalysis st of
           None \<Rightarrow> (Inl nullInstallPackages, st, tr)
         | Some a \<Rightarrow>
             (let tr1 = (case installPackages a of
                           None \<Rightarrow> tr
                         | Some packages \<Rightarrow> installAll projectInfo packages tr)
              in case (if i = 0 then compile e projectInfo tr1 else (Inr (), tr1)) of
                   (Inl m, tr2) \<Rightarrow> (Inl m, st, tr2)
                 | (Inr _, tr2) \<Rightarrow>
                     editThenCompile e projectInfo editRequirements files st tr2))"

text \<open>The \<^verbatim>\<open>catch\<close> (lines 96-99): keep the message, ask the analyzer.\<close>

definition editCompileCatch :: "env \<Rightarrow> string \<Rightarrow> loopState \<Rightarrow> trace \<Rightarrow> loopState \<times> trace" where
  "editCompileCatch e m st tr =
     (let tr1 = tr @ [AnalyzeCompileErrors m (initialSelectedFiles st)]
      in (st\<lparr>compileErrorOutput := Some m,
             errorAnalysis := Some (analyzeCompileErrors e tr1)\<rparr>, tr1))"

definition MAX_ATTEMPTS :: nat where
  "MAX_ATTEMPTS = 2"

text \<open>The \<^verbatim>\<open>for\<close> loop of lines 69-101, from round \<open>i\<close>: a round that does not throw
  breaks out, a round that throws runs the \<^verbatim>\<open>catch\<close> and goes on to round \<open>i + 1\<close>.\<close>

function editCompileLoop ::
  "env \<Rightarrow> ProjectInfo \<Rightarrow> string \<Rightarrow> nat \<Rightarrow> loopState \<Rightarrow> trace \<Rightarrow> loopState \<times> trace" where
  "editCompileLoop e projectInfo implementationRequirements i st tr =
     (if i < MAX_ATTEMPTS then
        (case editCompileTry e projectInfo implementationRequirements i st tr of
           (Inr _, st1, tr1) \<Rightarrow> (st1, tr1)
         | (Inl m, st1, tr1) \<Rightarrow>
             (case editCompileCatch e m st1 tr1 of
                (st2, tr2) \<Rightarrow>
                  editCompileLoop e projectInfo implementationRequirements (i + 1) st2 tr2))
      else (st, tr))"
  by pat_completeness auto
termination
  by (relation "measure (\<lambda>(e, projectInfo, req, i, st, tr). MAX_ATTEMPTS - i)") auto

section \<open>The static-analysis loop\<close>

text \<open>\<^verbatim>\<open>buildPrompt\<close> (lines 15-21); \<^verbatim>\<open>basePrompt\<close> is imported from a file that is
  not among the sources, hence a field of the environment.\<close>

definition buildPrompt :: "env \<Rightarrow> string \<Rightarrow> string \<Rightarrow> string \<Rightarrow> string" where
  "buildPrompt e information requirements action =
     basePrompt e @ ''\<newline>'' @ information @
     ''\<newline>\<newline>The requirements of the task are as follows:\<newline><requirements>\<newline>'' @
     requirements @
     ''\<newline></requirements>\<newline>\<newline>The action to be performed is as follows:\<newline><action>\<newline>'' @
     action @ ''\<newline></action>\<newline>''"

definition extractFilenamesAction :: string where
  "extractFilenamesAction =
     ''You will respond ONLY in JSON. From the requirements quietly consider which the files may be required to complete the task. You MUST output your answer ONLY as JSON in the format of this example:\<newline><example>\<newline>{\<newline> files: ['' @
     dquote @ ''file1'' @ dquote @ '', '' @ dquote @ ''file2'' @ dquote @ '', '' @
     dquote @ ''file3'' @ dquote @ '']\<newline>}\<newline></example>''"

text \<open>\<^verbatim>\<open>extractFilenames\<close> (lines 208-219). The environment's \<open>generateTextAsJson\<close>
  stands for the \<^verbatim>\<open>files\<close> field of the response. The \<^verbatim>\<open>cacheRetry\<close> decorator is
  not among the sources and is not modelled.\<close>

definition extractFilenames :: "env \<Rightarrow> string \<Rightarrow> trace \<Rightarrow> string list \<times> trace" where
  "extractFilenames e summary tr =
     (let tr1 = tr @ [ExtractFilenames summary, ListFilesRecursively];
          filenames = listFilesRecursively e tr1;
          prompt = buildPrompt e
            (''<project_files>\<newline>'' @ join ''\<newline>'' filenames @ ''\<newline></project_files>'')
            summary extractFilenamesAction;
          tr2 = tr1 @ [GenerateTextAsJson prompt]
      in (generateTextAsJson e tr2, tr2))"

definition STATIC_ANALYSIS_MAX_ATTEMPTS :: nat where
  "STATIC_ANALYSIS_MAX_ATTEMPTS = 2"

definition commitMessage :: string where
  "commitMessage = ''Fix static analysis errors''"

text \<open>The two texts built in the \<^verbatim>\<open>catch\<close> of the static-analysis loop (lines 119 and
  121). Both interpolate the variable \<^verbatim>\<open>compileErrorOutput\<close> of the edit-compile
  loop; the error \<^verbatim>\<open>e\<close> caught on line 113 is not read.\<close>

definition extractSummary :: "string option \<Rightarrow> string" where
  "extractSummary compileErrorOutput1 =
     interpolate compileErrorOutput1 @
     ''\<newline>\<newline>Extract the filenames from the compile errors.''"

definition staticAnalysisFixRequirements :: "ProjectInfo \<Rightarrow> string option \<Rightarrow> string" where
  "staticAnalysisFixRequirements projectInfo compileErrorOutput1 =
     ''Static analysis command: '' @ interpolate (staticAnalysis projectInfo) @ ''\<newline>'' @
     interpolate compileErrorOutput1 @ ''\<newline>Fix these static analysis errors''"

text \<open>\<^verbatim>\<open>fileSystem.vcs.addAllTrackedAndCommit\<close>: the call, and the error it throws when
  the environment says so.\<close>

definition addAllTrackedAndCommit :: "env \<Rightarrow> string \<Rightarrow> trace \<Rightarrow> unit result \<times> trace" where
  "addAllTrackedAndCommit e message tr =
     (let tr1 = tr @ [AddAllTrackedAndCommit message]
      in case addAllTrackedAndCommitError e tr1 of
           None \<Rightarrow> (Inr (), tr1)
         | Some m \<Rightarrow> (Inl m, tr1))"

text \<open>The body of the \<^verbatim>\<open>try\<close> (lines 110-111): run the analysis, then commit. An error
  of either is caught on line 113.\<close>

definition staticAnalysisTry :: "env \<Rightarrow> ProjectInfo \<Rightarrow> trace \<Rightarrow> unit result \<times> trace" where
  "staticAnalysisTry e projectInfo tr =
     (case runStaticAnalysis e projectInfo tr of
        (Inl m, tr1) \<Rightarrow> (Inl m, tr1)
      | (Inr _, tr1) \<Rightarrow> addAllTrackedAndCommit e commitMessage tr1)"

text \<open>Lines 119-123: extract the file names, call the editor.\<close>

definition repairStaticAnalysis ::
  "env \<Rightarrow> ProjectInfo \<Rightarrow> string option \<Rightarrow> trace \<Rightarrow> unit result \<times> trace" where
  "repairStaticAnalysis e projectInfo compileErrorOutput1 tr =
     (case extractFilenames e (extractSummary compileErrorOutput1) tr of
        (staticErrorFiles, tr1) \<Rightarrow>
          editFilesToMeetRequirements e
            (staticAnalysisFixRequirements projectInfo compileErrorOutput1)
            (map Some staticErrorFiles) tr1)"

text \<open>
  The \<^verbatim>\<open>catch\<close> (lines 115-124) on round \<open>i\<close>: commit; then on the last round only
  warn, on an earlier round repair. Nothing catches an error thrown here: it leaves the
  loop and the workflow.
\<close>

definition staticAnalysisCatch ::
  "env \<Rightarrow> ProjectInfo \<Rightarrow> string option \<Rightarrow> nat \<Rightarrow> trace \<Rightarrow> unit result \<times> trace" where
  "staticAnalysisCatch e projectInfo compileErrorOutput1 i tr =
     (case addAllTrackedAndCommit e commitMessage tr of
        (Inl m, tr1) \<Rightarrow> (Inl m, tr1)
      | (Inr _, tr1) \<Rightarrow>
          if i = STATIC_ANALYSIS_MAX_ATTEMPTS - 1 then (Inr (), tr1)
          else repairStaticAnalysis e projectInfo compileErrorOutput1 tr1)"

text \<open>The \<^verbatim>\<open>for\<close> loop of lines 107-126, from round \<open>i\<close>: a round whose \<^verbatim>\<open>try\<close> does
  not throw breaks out; a round whose \<^verbatim>\<open>try\<close> throws runs the \<^verbatim>\<open>catch\<close> and, unless
  that throws, goes on to round \<open>i + 1\<close>.\<close>

function staticAnalysisLoop ::
  "env \<Rightarrow> ProjectInfo \<Rightarrow> string option \<Rightarrow> nat \<Rightarrow> trace \<Rightarrow> unit result \<times> trace" where
  "staticAnalysisLoop e projectInfo compileErrorOutput1 i tr =
     (if i < STATIC_ANALYSIS_MAX_ATTEMPTS then
        (case staticAnalysisTry e projectInfo tr of
           (Inr _, tr1) \<Rightarrow> (Inr (), tr1)
         | (Inl m, tr1) \<Rightarrow>
             (case staticAnalysisCatch e projectInfo compileErrorOutput1 i tr1 of
                (Inl m1, tr2) \<Rightarrow> (Inl m1, tr2)
              | (Inr _, tr2) \<Rightarrow>
                  staticAnalysisLoop e projectInfo compileErrorOutput1 (i + 1) tr2))
      else (Inr (), tr))"
  by pat_completeness auto
termination
  by (relation "measure (\<lambda>(e, projectInfo, c, i, tr). STATIC_ANALYSIS_MAX_ATTEMPTS - i)") auto

section \<open>The test loop\<close>

text \<open>The requirement text of every round (lines 186-187).\<close>

definition testRequirements :: "string \<Rightarrow> string" where
  "testRequirements requirements =
     requirements @
     ''\<newline>Some of the requirements may have already been implemented, so don't duplicate any existing implementation meeting the requirements.\<newline>'' @
     ''Write any additional tests that would be of value.''"

text \<open>The body of the \<^verbatim>\<open>try\<close> (lines 186-192): edit, compile, run the tests.\<close>

definition testLoopTry ::
  "env \<Rightarrow> string \<Rightarrow> ProjectInfo \<Rightarrow> string list \<Rightarrow> trace \<Rightarrow> unit result \<times> trace" where
  "testLoopTry e requirements projectInfo initialSelectedFiles1 tr =
     (case editFilesToMeetRequirements e (testRequirements requirements)
             (map Some initialSelectedFiles1) tr of
        (Inl m, tr1) \<Rightarrow> (Inl m, tr1)
      | (Inr _, tr1) \<Rightarrow>
          (case compile e projectInfo tr1 of
             (Inl m, tr2) \<Rightarrow> (Inl m, tr2)
           | (Inr _, tr2) \<Rightarrow> runTests e projectInfo tr2))"

text \<open>The \<^verbatim>\<open>for\<close> loop of lines 184-198, from round \<open>i\<close>, with the current value of
  \<^verbatim>\<open>errorAnalysis\<close>; it returns the value of \<^verbatim>\<open>errorAnalysis\<close> at the end.\<close>

function testLoopFrom ::
  "env \<Rightarrow> string \<Rightarrow> ProjectInfo \<Rightarrow> string list \<Rightarrow> nat \<Rightarrow> CompileErrorAnalysis option \<Rightarrow> trace \<Rightarrow>
   CompileErrorAnalysis option \<times> trace" where
  "testLoopFrom e requirements projectInfo initialSelectedFiles1 i errorAnalysis1 tr =
     (if i < MAX_ATTEMPTS then
        (case testLoopTry e requirements projectInfo initialSelectedFiles1 tr of
           (Inr _, tr1) \<Rightarrow> (None, tr1)
         | (Inl testErrorOutput, tr1) \<Rightarrow>
             (let tr2 = tr1 @ [AnalyzeCompileErrors testErrorOutput initialSelectedFiles1]
              in testLoopFrom e requirements projectInfo initialSelectedFiles1 (i + 1)
                   (Some (analyzeCompileErrors e tr2)) tr2))
      else (errorAnalysis1, tr))"
  by pat_completeness auto
termination
  by (relation "measure (\<lambda>(e, r, projectInfo, fs, i, a, tr). MAX_ATTEMPTS - i)") auto

text \<open>\<^verbatim>\<open>testLoop\<close> (lines 179-200). The list \<^verbatim>\<open>initialSelectedFiles\<close> is only read.\<close>

definition testLoop ::
  "env \<Rightarrow> string \<Rightarrow> ProjectInfo \<Rightarrow> string list \<Rightarrow> trace \<Rightarrow> CompileErrorAnalysis option \<times> trace" where
  "testLoop e requirements projectInfo initialSelectedFiles1 tr =
     (let tr0 = tr @ [TestLoop]
      in if \<not> truthy (test projectInfo) then (None, tr0)
         else testLoopFrom e requirements projectInfo initialSelectedFiles1 0 None tr0)"

section \<open>\<^verbatim>\<open>runCodeEditWorkflow\<close>\<close>

text \<open>Lines 33-37: take the given project, or detect it and throw unless exactly one is
  found.\<close>

definition resolveProjectInfo ::
  "env \<Rightarrow> ProjectInfo option \<Rightarrow> trace \<Rightarrow> ProjectInfo result \<times> trace" where
  "resolveProjectInfo e projectInfo tr =
     (case projectInfo of
        Some p \<Rightarrow> (Inr p, tr)
      | None \<Rightarrow>
          (let tr1 = tr @ [DetectProjectInfo];
               detected = detectProjectInfo e tr1
           in if length detected \<noteq> 1 then (Inl ''projectInfo array must have one item'', tr1)
              else (Inr (hd detected), tr1)))"

text \<open>The prompt of lines 50-56.\<close>

definition implementationPrompt :: "string \<Rightarrow> string \<Rightarrow> string" where
  "implementationPrompt xml requirements =
     xml @ ''\<newline>'' @ tab @ tab @ ''<requirements>'' @ requirements @ ''</requirements>\<newline>'' @
     tab @ tab @ ''You are a senior software engineer. Your job is to review the provided user requirements against the code provided and produce an implementation design specification to give to a junior developer to implement the changes in the provided files.\<newline>'' @
     tab @ tab @ ''Do not provide any details of verification commands etc as the CI/CD build will run integration tests. Only detail the changes required in the files for the pull request.\<newline>'' @
     tab @ tab @ ''Check if any of the requirements have already been correctly implemented in the code as to not duplicate work.\<newline>'' @
     tab @ tab @ ''Look at the existing style of the code when producing the requirements.\<newline>'' @
     tab @ tab"

text \<open>Lines 39-59: set the working directory, select the files (primary, then
  secondary), and ask for the implementation specification. The result is the initial
  value of \<^verbatim>\<open>initialSelectedFiles\<close> and the specification text.\<close>

definition selectAndSpecify ::
  "env \<Rightarrow> string \<Rightarrow> ProjectInfo \<Rightarrow> trace \<Rightarrow> (string list \<times> string) \<times> trace" where
  "selectAndSpecify e requirements projectInfo tr =
     (let tr1 = tr @ [SetWorkingDirectory (baseDir projectInfo), SelectFilesToEdit requirements];
          filesResponse = selectFilesToEdit e tr1;
          initialSelectedFiles1 = map path (primaryFiles filesResponse) @
                                  map path (secondaryFiles filesResponse);
          tr2 = tr1 @ [GetMultipleFileContentsAsXml initialSelectedFiles1];
          xml = getMultipleFileContentsAsXml e tr2;
          tr3 = tr2 @ [GenerateText (implementationPrompt xml requirements)]
      in ((initialSelectedFiles1, generateText e tr3), tr3))"

text \<open>Lines 103-129, with the variables as the edit-compile loop left them: return if
  \<^verbatim>\<open>errorAnalysis\<close> is set; else run the static-analysis loop if a command is
  configured, then the test loop, whose result is dropped.\<close>

definition afterEditCompile ::
  "env \<Rightarrow> string \<Rightarrow> ProjectInfo \<Rightarrow> loopState \<Rightarrow> trace \<Rightarrow> unit result \<times> trace" where
  "afterEditCompile e requirements projectInfo st tr =
     (if errorAnalysis st \<noteq> None then (Inr (), tr)
      else
        (case (if truthy (staticAnalysis projectInfo)
               then staticAnalysisLoop e projectInfo (compileErrorOutput st) 0 tr
               else (Inr (), tr)) of
           (Inl m, tr1) \<Rightarrow> (Inl m, tr1)
         | (Inr _, tr1) \<Rightarrow>
             (case testLoop e requirements projectInfo (initialSelectedFiles st) tr1 of
                (_, tr2) \<Rightarrow> (Inr (), tr2))))"

text \<open>The variables of the edit-compile loop as lines 44-47 and 64-65 initialise them.\<close>

definition startState :: "string list \<Rightarrow> loopState" where
  "startState fs = \<lparr>initialSelectedFiles = fs, errorAnalysis = None, compileErrorOutput = None\<rparr>"

text \<open>\<^verbatim>\<open>runCodeEditWorkflow\<close> (lines 32-130).\<close>

definition runCodeEditWorkflow ::
  "env \<Rightarrow> string \<Rightarrow> ProjectInfo option \<Rightarrow> trace \<Rightarrow> unit result \<times> trace" where
  "runCodeEditWorkflow e requirements projectInfo tr =
     (case resolveProjectInfo e projectInfo tr of
        (Inl m, tr1) \<Rightarrow> (Inl m, tr1)
      | (Inr p, tr1) \<Rightarrow>
          (case selectAndSpecify e requirements p tr1 of
             ((initialSelectedFiles1, implementationRequirements), tr2) \<Rightarrow>
               (case editCompileLoop e p implementationRequirements 0
                       (startState initialSelectedFiles1) tr2 of
                  (st, tr3) \<Rightarrow> afterEditCompile e requirements p st tr3)))"

text \<open>The equations of the three loops are unfolded by hand, round by round.\<close>

declare editCompileLoop.simps [simp del]
declare staticAnalysisLoop.simps [simp del]
declare testLoopFrom.simps [simp del]

section \<open>Observing a run\<close>

text \<open>The command result each primitive receives when it is called at trace \<open>tr\<close>.\<close>

definition compileResult :: "env \<Rightarrow> ProjectInfo \<Rightarrow> trace \<Rightarrow> CommandResult" where
  "compileResult e projectInfo tr =
     execCommand e (tr @ [Compile, ExecCommand (compileCmd projectInfo)])"

definition staticAnalysisResult :: "env \<Rightarrow> ProjectInfo \<Rightarrow> trace \<Rightarrow> CommandResult" where
  "staticAnalysisResult e projectInfo tr =
     execCommand e
       (tr @ [RunStaticAnalysis, ExecCommand (interpolate (staticAnalysis projectInfo))])"

definition testResult :: "env \<Rightarrow> ProjectInfo \<Rightarrow> trace \<Rightarrow> CommandResult" where
  "testResult e projectInfo tr =
     execCommand e (tr @ [RunTests, ExecCommand (interpolate (test projectInfo))])"

text \<open>The events a function added to the trace \<open>tr\<close> it started from.\<close>

definition newEvents :: "trace \<Rightarrow> trace \<Rightarrow> trace" where
  "newEvents tr tr1 = drop (length tr) tr1"

fun isEditorCall :: "event \<Rightarrow> bool" where
  "isEditorCall (EditFilesToMeetRequirements requirements filesToEdit) = True"
| "isEditorCall ev = False"

fun isCommit :: "event \<Rightarrow> bool" where
  "isCommit (AddAllTrackedAndCommit message) = True"
| "isCommit ev = False"

text \<open>The events of the stages behind the compile gate: a static-analysis run, a commit,
  an entry into the test loop, a test run.\<close>

fun laterStage :: "event \<Rightarrow> bool" where
  "laterStage RunStaticAnalysis = True"
| "laterStage (AddAllTrackedAndCommit message) = True"
| "laterStage TestLoop = True"
| "laterStage RunTests = True"
| "laterStage ev = False"

fun analysisOrCommit :: "event \<Rightarrow> bool" where
  "analysisOrCommit RunStaticAnalysis = True"
| "analysisOrCommit (AddAllTrackedAndCommit message) = True"
| "analysisOrCommit ev = False"

definition compileCalls :: "trace \<Rightarrow> nat" where
  "compileCalls tr = length (filter (\<lambda>ev. ev = Compile) tr)"

definition editorCalls :: "trace \<Rightarrow> nat" where
  "editorCalls tr = length (filter isEditorCall tr)"

definition commitCalls :: "trace \<Rightarrow> nat" where
  "commitCalls tr = length (filter isCommit tr)"

definition staticAnalysisRuns :: "trace \<Rightarrow> nat" where
  "staticAnalysisRuns tr = length (filter (\<lambda>ev. ev = RunStaticAnalysis) tr)"

text \<open>
  The file list of the editor, in the words of the claim about it: an entry is blank
  when it is empty or holds only white space; the non-blank paths of a list are its
  entries that are neither null nor blank, in the order of the list.
\<close>

definition blank :: "string \<Rightarrow> bool" where
  "blank s = list_all isWhiteSpace s"

definition nonBlankPaths :: "string option list \<Rightarrow> string list" where
  "nonBlankPaths filesToEdit =
     filter (\<lambda>s. \<not> blank s) (List.map_filter (\<lambda>entry. entry) filesToEdit)"

definition quoted :: "string \<Rightarrow> string" where
  "quoted s = dquote @ s @ dquote"

fun isExtractFilenames :: "event \<Rightarrow> bool" where
  "isExtractFilenames (ExtractFilenames summary) = True"
| "isExtractFilenames ev = False"

text \<open>The part of a run's trace from the first static-analysis run up to the entry into
  the test loop.\<close>

definition staticAnalysisStage :: "trace \<Rightarrow> trace" where
  "staticAnalysisStage tr =
     takeWhile (\<lambda>ev. ev \<noteq> TestLoop) (dropWhile (\<lambda>ev. ev \<noteq> RunStaticAnalysis) tr)"

text \<open>The diagnoses the analyzer returned along a trace: one for each of its calls, the
  answer of the environment at the trace up to and including that call.\<close>

fun isAnalyzerCall :: "event \<Rightarrow> bool" where
  "isAnalyzerCall (AnalyzeCompileErrors diagnosticText candidateFiles) = True"
| "isAnalyzerCall ev = False"

fun diagnosesFrom :: "env \<Rightarrow> trace \<Rightarrow> trace \<Rightarrow> CompileErrorAnalysis list" where
  "diagnosesFrom e past [] = []"
| "diagnosesFrom e past (ev # rest) =
     (if isAnalyzerCall ev then [analyzeCompileErrors e (past @ [ev])] else []) @
     diagnosesFrom e (past @ [ev]) rest"

definition diagnoses :: "env \<Rightarrow> trace \<Rightarrow> CompileErrorAnalysis list" where
  "diagnoses e tr = diagnosesFrom e [] tr"

text \<open>The part of a run's trace from the entry into the test loop on.\<close>

definition testStage :: "trace \<Rightarrow> trace" where
  "testStage tr = dropWhile (\<lambda>ev. ev \<noteq> TestLoop) tr"

text \<open>The files a diagnosis names, and the requirement text of a round that follows a
  failed one (lines 72-75).\<close>

definition diagnosisFiles :: "CompileErrorAnalysis \<Rightarrow> string list" where
  "diagnosisFiles a = (case additionalFiles a of None \<Rightarrow> [] | Some extra \<Rightarrow> extra)"

definition retryRequirements :: "string \<Rightarrow> string option \<Rightarrow> string" where
  "retryRequirements spec compileErrorOutput1 =
     spec @ ''\<newline>Immediate task: Fix the following compile errors:\<newline>'' @
     interpolate compileErrorOutput1"

text \<open>The outcome of each commit along a run: for every call of
  \<^verbatim>\<open>addAllTrackedAndCommit\<close> among the events \<open>evs\<close> that follow the trace \<open>past\<close>, the error
  the environment makes it throw, or \<open>None\<close>.\<close>

fun commitOutcomesFrom :: "env \<Rightarrow> trace \<Rightarrow> trace \<Rightarrow> string option list" where
  "commitOutcomesFrom e past [] = []"
| "commitOutcomesFrom e past (ev # rest) =
     (if isCommit ev then [addAllTrackedAndCommitError e (past @ [ev])] else []) @
     commitOutcomesFrom e (past @ [ev]) rest"

definition commitsSucceed :: "env \<Rightarrow> trace \<Rightarrow> trace \<Rightarrow> bool" where
  "commitsSucceed e tr evs = list_all (\<lambda>k. k = None) (commitOutcomesFrom e tr evs)"

text \<open>The events a run of the static-analysis loop adds to the trace.\<close>

definition staticAnalysisLoopEvents :: "env \<Rightarrow> ProjectInfo \<Rightarrow> string option \<Rightarrow> trace \<Rightarrow> trace" where
  "staticAnalysisLoopEvents e projectInfo compileErrorOutput1 tr =
     newEvents tr (snd (staticAnalysisLoop e projectInfo compileErrorOutput1 0 tr))"

text \<open>The outcome of the commit of line 111 in the first round, made right after the
  first analysis run; and the repair (lines 119-123) of the first round, made right after
  the commit of line 115 when the first analysis run threw.\<close>

definition firstCommitError :: "env \<Rightarrow> ProjectInfo \<Rightarrow> trace \<Rightarrow> string option" where
  "firstCommitError e projectInfo tr =
     addAllTrackedAndCommitError e
       (snd (runStaticAnalysis e projectInfo tr) @ [AddAllTrackedAndCommit commitMessage])"

definition firstRepair :: "env \<Rightarrow> ProjectInfo \<Rightarrow> string option \<Rightarrow> trace \<Rightarrow> unit result \<times> trace" where
  "firstRepair e projectInfo compileErrorOutput1 tr =
     repairStaticAnalysis e projectInfo compileErrorOutput1
       (snd (runStaticAnalysis e projectInfo tr) @ [AddAllTrackedAndCommit commitMessage])"

text \<open>The editor's calls up to the creation of the history file, the name of that file
  (line 68), and the error of the \<^verbatim>\<open>writeFileSync\<close> that creates it.\<close>

definition editorSetup :: "string \<Rightarrow> string option list \<Rightarrow> trace" where
  "editorSetup requirements filesToEdit =
     [EditFilesToMeetRequirements requirements filesToEdit,
      WriteFile messageFilePath requirements, Mkdir ''.nous/aider/llm-history'']"

definition historyFile :: "env \<Rightarrow> string \<Rightarrow> string option list \<Rightarrow> trace \<Rightarrow> string" where
  "historyFile e requirements filesToEdit tr =
     ''.nous/aider/llm-history/'' @ agentId e @ ''-'' @
     dateNow e (tr @ editorSetup requirements filesToEdit)"

definition historyFileError :: "env \<Rightarrow> string \<Rightarrow> string option list \<Rightarrow> trace \<Rightarrow> string option" where
  "historyFileError e requirements filesToEdit tr =
     writeFileSyncError e
       (tr @ editorSetup requirements filesToEdit @
        [WriteFileSync (historyFile e requirements filesToEdit tr)])"

text \<open>The three tests of lines 47-62 on the keys of lines 41-43.\<close>

definition anthropicKeySet :: "env \<Rightarrow> bool" where
  "anthropicKeySet e = truthy (orElse (llmConfigAnthropicKey e) (processEnvAnthropicKey e))"

definition deepSeekKeySet :: "env \<Rightarrow> bool" where
  "deepSeekKeySet e = truthy (orElse (llmConfigDeepseekKey e) (processEnvDeepseekKey e))"

definition openaiKeySet :: "env \<Rightarrow> bool" where
  "openaiKeySet e = truthy (orElse (llmConfigOpenaiKey e) (processEnvOpenaiKey e))"

text \<open>Round \<open>i = 1\<close> of the edit-compile loop, started as the workflow starts it: the
  trace at which its editor call is made (after the analyzer's call of round 0 and the
  package installations of lines 77-79), and that editor call.\<close>

definition roundOneTrace :: "env \<Rightarrow> ProjectInfo \<Rightarrow> string list \<Rightarrow> trace \<Rightarrow> trace" where
  "roundOneTrace e projectInfo fs tr =
     (case installPackages
             (analyzeCompileErrors e (tr @ [AnalyzeCompileErrors nullInstallPackages fs])) of
        None \<Rightarrow> tr @ [AnalyzeCompileErrors nullInstallPackages fs]
      | Some packages \<Rightarrow>
          installAll projectInfo packages (tr @ [AnalyzeCompileErrors nullInstallPackages fs]))"

definition roundOneEdit ::
  "env \<Rightarrow> ProjectInfo \<Rightarrow> string \<Rightarrow> string list \<Rightarrow> trace \<Rightarrow> unit result \<times> trace" where
  "roundOneEdit e projectInfo spec fs tr =
     editFilesToMeetRequirements e (retryRequirements spec (Some nullInstallPackages))
       (map Some (fs @ diagnosisFiles
          (analyzeCompileErrors e (tr @ [AnalyzeCompileErrors nullInstallPackages fs]))))
       (roundOneTrace e projectInfo fs tr)"

section \<open>Example projects and environments\<close>

definition succeeded :: CommandResult where
  "succeeded = \<lparr>exitCode = 0, stdout = [], stderr = []\<rparr>"

definition exitsWith :: "int \<Rightarrow> CommandResult" where
  "exitsWith n = \<lparr>exitCode = n, stdout = ''out'', stderr = ''err''\<rparr>"

definition exampleProject :: ProjectInfo where
  "exampleProject = \<lparr>baseDir = ''app'', compileCmd = ''build'', test = Some ''unit-test'',
     staticAnalysis = Some ''lint'', languageTools = True\<rparr>"

text \<open>An environment in which every command and every commit succeeds, one project is
  detected, the analyzer names \<^verbatim>\<open>x.ts\<close> and the editor's commit adds \<^verbatim>\<open>n.ts\<close>.\<close>

definition exampleEnv :: env where
  "exampleEnv = \<lparr>detectProjectInfo = (\<lambda>tr. [exampleProject]),
     selectFilesToEdit = (\<lambda>tr. \<lparr>primaryFiles = [\<lparr>path = ''a.ts''\<rparr>],
                                 secondaryFiles = [\<lparr>path = ''b.ts''\<rparr>]\<rparr>),
     getMultipleFileContentsAsXml = (\<lambda>tr. ''<files/>''),
     generateText = (\<lambda>tr. ''design''),
     generateTextAsJson = (\<lambda>tr. [''a.ts'']),
     listFilesRecursively = (\<lambda>tr. [''a.ts'', ''b.ts'']),
     execCommand = (\<lambda>tr. succeeded),
     analyzeCompileErrors = (\<lambda>tr. \<lparr>additionalFiles = Some [''x.ts''], installPackages = None\<rparr>),
     getFilesAddedInHeadCommit = (\<lambda>tr. [''n.ts'']),
     addAllTrackedAndCommitError = (\<lambda>tr. None),
     writeFileSyncError = (\<lambda>tr. None),
     llmConfigAnthropicKey = Some ''key'', llmConfigDeepseekKey = None,
     llmConfigOpenaiKey = None, processEnvAnthropicKey = None,
     processEnvDeepseekKey = None, processEnvOpenaiKey = None,
     agentId = ''agent'', dateNow = (\<lambda>tr. ''1''), basePrompt = ''base''\<rparr>"

text \<open>Every command exits with the given code.\<close>

definition exitCodeEnv :: "int \<Rightarrow> env" where
  "exitCodeEnv n = exampleEnv\<lparr>execCommand := (\<lambda>tr. exitsWith n)\<rparr>"

text \<open>Detection finds no project, or two.\<close>

definition noProjectEnv :: env where
  "noProjectEnv = exampleEnv\<lparr>detectProjectInfo := (\<lambda>tr. [])\<rparr>"

definition twoProjectsEnv :: env where
  "twoProjectsEnv = exampleEnv\<lparr>detectProjectInfo := (\<lambda>tr. [exampleProject, exampleProject])\<rparr>"

text \<open>A file list with a null, an empty and a white-space entry.\<close>

definition blankEntries :: "string option list" where
  "blankEntries = [Some ''a.ts'', None, Some [], Some ('' '' @ tab), Some ''b c.ts'']"

text \<open>The compile command fails whenever it runs; every other command succeeds.\<close>

definition compileFailsEnv :: env where
  "compileFailsEnv = exampleEnv\<lparr>execCommand :=
     (\<lambda>tr. if last tr = ExecCommand ''build'' then exitsWith 1 else succeeded)\<rparr>"

text \<open>The whole workflow in the environment whose compile command always fails.\<close>

definition scenarioB :: "unit result \<times> trace" where
  "scenarioB = runCodeEditWorkflow compileFailsEnv ''add a flag'' None []"

text \<open>The static-analysis command fails whenever it runs; every other command
  succeeds.\<close>

definition lintFailure :: CommandResult where
  "lintFailure = \<lparr>exitCode = 1, stdout = ''y is unused'', stderr = ''lint failed''\<rparr>"

definition lintFailsEnv :: env where
  "lintFailsEnv = exampleEnv\<lparr>execCommand :=
     (\<lambda>tr. if last tr = ExecCommand ''lint'' then lintFailure else succeeded)\<rparr>"

definition scenarioLint :: "unit result \<times> trace" where
  "scenarioLint = runCodeEditWorkflow lintFailsEnv ''add a flag'' None []"

text \<open>The edit-compile loop alone, in the example environment.\<close>

definition exampleLoop :: "loopState \<times> trace" where
  "exampleLoop =
     editCompileLoop exampleEnv exampleProject ''design'' 0 (startState [''a.ts'', ''b.ts'']) []"

text \<open>
  One detected project with a test command and no static analysis. Every command
  succeeds, except that the first test run fails with \<^verbatim>\<open>FAIL case X\<close>; the diagnosis of a
  test failure names \<^verbatim>\<open>x.ts\<close>; the editor's commits add no file.
\<close>

definition testFailure :: CommandResult where
  "testFailure = \<lparr>exitCode = 1, stdout = ''FAIL case X'', stderr = []\<rparr>"

definition projectA :: ProjectInfo where
  "projectA = \<lparr>baseDir = ''app'', compileCmd = ''build'', test = Some ''unit-test'',
     staticAnalysis = None, languageTools = True\<rparr>"

definition scenarioAEnv :: env where
  "scenarioAEnv = exampleEnv\<lparr>
     detectProjectInfo := (\<lambda>tr. [projectA]),
     execCommand := (\<lambda>tr. if last tr = ExecCommand ''unit-test''
                                 \<and> length (filter (\<lambda>ev. ev = RunTests) tr) = 1
                              then testFailure else succeeded),
     analyzeCompileErrors := (\<lambda>tr. if RunTests \<in> set tr
                                       then \<lparr>additionalFiles = Some [''x.ts''], installPackages = None\<rparr>
                                       else \<lparr>additionalFiles = None, installPackages = None\<rparr>),
     getFilesAddedInHeadCommit := (\<lambda>tr. [])\<rparr>"

definition scenarioA :: "unit result \<times> trace" where
  "scenarioA = runCodeEditWorkflow scenarioAEnv ''add a flag'' None []"

text \<open>Every commit is rejected; every command succeeds.\<close>

definition commitRejectedEnv :: env where
  "commitRejectedEnv =
     exampleEnv\<lparr>addAllTrackedAndCommitError := (\<lambda>tr. Some ''nothing to commit'')\<rparr>"

text \<open>A project with no static-analysis command and an empty test command.\<close>

definition unconfiguredProject :: ProjectInfo where
  "unconfiguredProject = \<lparr>baseDir = ''app'', compileCmd = ''build'', test = Some [],
     staticAnalysis = None, languageTools = False\<rparr>"

text \<open>No key is configured; only a Deepseek key is.\<close>

definition noKeyEnv :: env where
  "noKeyEnv = exampleEnv\<lparr>llmConfigAnthropicKey := None\<rparr>"

definition deepSeekEnv :: env where
  "deepSeekEnv = exampleEnv\<lparr>llmConfigAnthropicKey := Some [], processEnvDeepseekKey := Some ''key''\<rparr>"

section \<open>Properties of the command primitives\<close>

lemma sublist_skip: "sublist xs zs \<Longrightarrow> sublist xs (ys @ zs)"
  by (metis sublist_order.order_trans sublist_append_leftI)

lemma compile_fst:
  "fst (compile e p tr) =
     (if 0 < exitCode (compileResult e p tr) then Inl (compileOutput p (compileResult e p tr))
      else Inr ())"
  by (simp add: compile_def compileResult_def Let_def)

lemma compile_snd: "snd (compile e p tr) = tr @ [Compile, ExecCommand (compileCmd p)]"
  by (simp add: compile_def Let_def)

lemma runStaticAnalysis_fst:
  "truthy (staticAnalysis p) \<Longrightarrow>
   fst (runStaticAnalysis e p tr) =
     (if 0 < exitCode (staticAnalysisResult e p tr)
      then Inl (staticAnalysisOutput p (staticAnalysisResult e p tr)) else Inr ())"
  by (simp add: runStaticAnalysis_def staticAnalysisResult_def Let_def)

lemma runTests_fst:
  "truthy (test p) \<Longrightarrow>
   fst (runTests e p tr) =
     (if 0 < exitCode (testResult e p tr) then Inl (testOutput p (testResult e p tr))
      else Inr ())"
  by (simp add: runTests_def testResult_def Let_def)

lemma compileOutput_carries:
  "sublist (stdout r) (compileOutput p r)" "sublist (stderr r) (compileOutput p r)"
  unfolding compileOutput_def by (intro sublist_append_rightI sublist_skip)+

lemma staticAnalysisOutput_carries:
  "sublist (stdout r) (staticAnalysisOutput p r)" "sublist (stderr r) (staticAnalysisOutput p r)"
  unfolding staticAnalysisOutput_def by (intro sublist_append_rightI sublist_skip)+

lemma testOutput_carries:
  "sublist (stdout r) (testOutput p r)" "sublist (stderr r) (testOutput p r)"
  unfolding testOutput_def by (intro sublist_append_rightI sublist_skip)+

lemma runStaticAnalysis_configured:
  "truthy (staticAnalysis p) \<Longrightarrow>
   snd (runStaticAnalysis e p tr) =
     tr @ [RunStaticAnalysis, ExecCommand (interpolate (staticAnalysis p))]"
  by (simp add: runStaticAnalysis_def Let_def)

lemma runStaticAnalysis_unconfigured:
  "\<not> truthy (staticAnalysis p) \<Longrightarrow> runStaticAnalysis e p tr = (Inr (), tr @ [RunStaticAnalysis])"
  by (simp add: runStaticAnalysis_def Let_def)

lemma runTests_configured:
  "truthy (test p) \<Longrightarrow>
   snd (runTests e p tr) = tr @ [RunTests, ExecCommand (interpolate (test p))]"
  by (simp add: runTests_def Let_def)

lemma runTests_unconfigured:
  "\<not> truthy (test p) \<Longrightarrow> runTests e p tr = (Inr (), tr @ [RunTests])"
  by (simp add: runTests_def Let_def)

text \<open>
  Claim C9, as amended. The compile, static-analysis and test primitives throw exactly
  when the exit code of their command is greater than zero, and the message they throw
  contains the captured standard output and standard error. On exit code 0, and on a
  negative exit code, they return normally. \<^verbatim>\<open>compile\<close> always runs its command. The
  static-analysis and test primitives run their command when it is configured, and only
  then: with no command configured they run nothing and return normally.
\<close>

theorem command_primitives_throw_iff_positive:
  "fst (compile e p tr) =
     (if 0 < exitCode (compileResult e p tr) then Inl (compileOutput p (compileResult e p tr))
      else Inr ())
   \<and> sublist (stdout (compileResult e p tr)) (compileOutput p (compileResult e p tr))
   \<and> sublist (stderr (compileResult e p tr)) (compileOutput p (compileResult e p tr))
   \<and> (truthy (staticAnalysis p) \<longrightarrow>
        fst (runStaticAnalysis e p tr) =
          (if 0 < exitCode (staticAnalysisResult e p tr)
           then Inl (staticAnalysisOutput p (staticAnalysisResult e p tr)) else Inr ()))
   \<and> sublist (stdout (staticAnalysisResult e p tr))
        (staticAnalysisOutput p (staticAnalysisResult e p tr))
   \<and> sublist (stderr (staticAnalysisResult e p tr))
        (staticAnalysisOutput p (staticAnalysisResult e p tr))
   \<and> (truthy (test p) \<longrightarrow>
        fst (runTests e p tr) =
          (if 0 < exitCode (testResult e p tr) then Inl (testOutput p (testResult e p tr))
           else Inr ()))
   \<and> sublist (stdout (testResult e p tr)) (testOutput p (testResult e p tr))
   \<and> sublist (stderr (testResult e p tr)) (testOutput p (testResult e p tr))
   \<and> snd (compile e p tr) = tr @ [Compile, ExecCommand (compileCmd p)]
   \<and> (truthy (staticAnalysis p) \<longrightarrow>
        snd (runStaticAnalysis e p tr) =
          tr @ [RunStaticAnalysis, ExecCommand (interpolate (staticAnalysis p))])
   \<and> (\<not> truthy (staticAnalysis p) \<longrightarrow>
        runStaticAnalysis e p tr = (Inr (), tr @ [RunStaticAnalysis]))
   \<and> (truthy (test p) \<longrightarrow>
        snd (runTests e p tr) = tr @ [RunTests, ExecCommand (interpolate (test p))])
   \<and> (\<not> truthy (test p) \<longrightarrow> runTests e p tr = (Inr (), tr @ [RunTests]))"
  using compile_fst [of e p tr] runStaticAnalysis_fst [of p e tr] runTests_fst [of p e tr]
    compileOutput_carries staticAnalysisOutput_carries testOutput_carries
    compile_snd [of e p tr] runStaticAnalysis_configured [of p e tr]
    runStaticAnalysis_unconfigured [of p e tr] runTests_configured [of p e tr]
    runTests_unconfigured [of p e tr]
  by blast

text \<open>At exit code 2 all three primitives of the example project throw, after running
  their command; those of the project with no static-analysis and no test command run
  nothing and return.\<close>

theorem command_primitives_throw_iff_positive_witness:
  "truthy (staticAnalysis exampleProject) \<and> truthy (test exampleProject)
   \<and> fst (compile (exitCodeEnv 2) exampleProject []) =
       Inl (compileOutput exampleProject (exitsWith 2))
   \<and> fst (runStaticAnalysis (exitCodeEnv 2) exampleProject []) =
       Inl (staticAnalysisOutput exampleProject (exitsWith 2))
   \<and> fst (runTests (exitCodeEnv 2) exampleProject []) =
       Inl (testOutput exampleProject (exitsWith 2))
   \<and> snd (runStaticAnalysis (exitCodeEnv 2) exampleProject []) =
       [RunStaticAnalysis, ExecCommand ''lint'']
   \<and> snd (runTests (exitCodeEnv 2) exampleProject []) = [RunTests, ExecCommand ''unit-test'']
   \<and> \<not> truthy (staticAnalysis unconfiguredProject) \<and> \<not> truthy (test unconfiguredProject)
   \<and> runStaticAnalysis (exitCodeEnv 2) unconfiguredProject [] = (Inr (), [RunStaticAnalysis])
   \<and> runTests (exitCodeEnv 2) unconfiguredProject [] = (Inr (), [RunTests])"
  using command_primitives_throw_iff_positive [of "exitCodeEnv 2" exampleProject "[]"]
    command_primitives_throw_iff_positive [of "exitCodeEnv 2" unconfiguredProject "[]"]
  by (simp add: exitCodeEnv_def exampleEnv_def exampleProject_def unconfiguredProject_def
      exitsWith_def truthy_def interpolate_def
      compileResult_def staticAnalysisResult_def testResult_def)

text \<open>Claim C9 as stated fails: with exit code -1, which is not zero, \<^verbatim>\<open>compile\<close>
  returns normally.\<close>

theorem negative_exit_code_counterexample:
  "exitCode (compileResult (exitCodeEnv (- 1)) exampleProject []) \<noteq> 0
   \<and> fst (compile (exitCodeEnv (- 1)) exampleProject []) = Inr ()"
  by (simp add: compile_def compileResult_def exitCodeEnv_def exampleEnv_def exitsWith_def
      Let_def)

section \<open>Project detection\<close>

text \<open>
  Claim C8. When no project is given and detection does not return exactly one
  candidate, \<^verbatim>\<open>runCodeEditWorkflow\<close> throws, and the only call it has made is the
  detection: no file selection, edit, compile or commit.
\<close>

theorem detection_ambiguity_is_fatal:
  "length (detectProjectInfo e (tr @ [DetectProjectInfo])) \<noteq> 1 \<Longrightarrow>
   runCodeEditWorkflow e requirements None tr =
     (Inl ''projectInfo array must have one item'', tr @ [DetectProjectInfo])"
  by (simp add: runCodeEditWorkflow_def resolveProjectInfo_def Let_def)

text \<open>With no candidate.\<close>

theorem detection_ambiguity_is_fatal_witness:
  "length (detectProjectInfo noProjectEnv ([] @ [DetectProjectInfo])) \<noteq> 1
   \<and> runCodeEditWorkflow noProjectEnv ''add a flag'' None [] =
       (Inl ''projectInfo array must have one item'', [DetectProjectInfo])"
  using detection_ambiguity_is_fatal [of noProjectEnv "[]" "''add a flag''"]
  by (simp add: noProjectEnv_def exampleEnv_def)

lemma detection_two_candidates:
  "runCodeEditWorkflow twoProjectsEnv ''add a flag'' None [] =
     (Inl ''projectInfo array must have one item'', [DetectProjectInfo])"
  by (simp add: runCodeEditWorkflow_def resolveProjectInfo_def Let_def twoProjectsEnv_def
      exampleEnv_def)

section \<open>The editor's command\<close>

lemma newEvents_append [simp]: "newEvents tr (tr @ evs) = evs"
  by (simp add: newEvents_def)

lemma all_dropWhile: "(\<forall>x \<in> set (dropWhile P s). P x) \<longleftrightarrow> (\<forall>x \<in> set s. P x)"
  by (induction s) auto

lemma trim_empty_iff: "trim s = [] \<longleftrightarrow> blank s"
  by (simp add: trim_def blank_def list_all_iff all_dropWhile)

lemma keepFile_Some: "keepFile (Some s) \<longleftrightarrow> \<not> blank s"
  by (simp add: keepFile_def trim_empty_iff)

lemma keepFile_None: "\<not> keepFile None"
  by (simp add: keepFile_def)

lemma filter_keepFile: "filter keepFile filesToEdit = map Some (nonBlankPaths filesToEdit)"
proof (induction filesToEdit)
  case Nil
  show ?case by (simp add: nonBlankPaths_def)
next
  case (Cons entry rest)
  then show ?case
    by (cases entry) (simp_all add: nonBlankPaths_def keepFile_Some keepFile_None)
qed

lemma aiderCommand_filtered:
  "aiderCommand modelArg llmHistoryFile (filter keepFile filesToEdit) =
     ''aider --no-check-update --yes '' @ modelArg @ '' --llm-history-file='' @
     quoted llmHistoryFile @ '' --message-file=.aider-requirements '' @
     join '' '' (map quoted (nonBlankPaths filesToEdit))"
  by (simp add: aiderCommand_def filter_keepFile quoted_def [abs_def] messageFilePath_def
      interpolate_def comp_def)

lemma subseq_nonBlankPaths: "subseq (map Some (nonBlankPaths filesToEdit)) filesToEdit"
  by (metis filter_keepFile subseq_filter_left)

lemma runAider_commands:
  "ExecCommand cmd \<in> set (newEvents tr (snd (runAider e modelArg fs tr))) \<Longrightarrow>
   \<exists>llmHistoryFile. cmd = aiderCommand modelArg llmHistoryFile fs"
  by (auto simp: runAider_def Let_def newEvents_def split: option.splits if_splits)

lemma runAider_append: "\<exists>evs. snd (runAider e modelArg fs tr) = tr @ evs"
  by (simp add: runAider_def Let_def split: option.splits)

lemma editFiles_commands:
  "ExecCommand cmd \<in>
     set (newEvents tr (snd (editFilesToMeetRequirements e requirements filesToEdit tr))) \<Longrightarrow>
   \<exists>modelArg llmHistoryFile.
     cmd = aiderCommand modelArg llmHistoryFile (filter keepFile filesToEdit)"
proof -
  let ?tr1 = "tr @ [EditFilesToMeetRequirements requirements filesToEdit,
                    WriteFile messageFilePath requirements]"
  assume a: "ExecCommand cmd \<in>
     set (newEvents tr (snd (editFilesToMeetRequirements e requirements filesToEdit tr)))"
  have aider: "\<exists>llmHistoryFile. cmd = aiderCommand m llmHistoryFile (filter keepFile filesToEdit)"
    if "ExecCommand cmd \<in> set (newEvents tr (snd (runAider e m (filter keepFile filesToEdit) ?tr1)))"
    for m
  proof -
    obtain evs where evs: "snd (runAider e m (filter keepFile filesToEdit) ?tr1) = ?tr1 @ evs"
      using runAider_append by blast
    with that have "ExecCommand cmd \<in> set evs" by simp
    then have "ExecCommand cmd \<in>
        set (newEvents ?tr1 (snd (runAider e m (filter keepFile filesToEdit) ?tr1)))"
      by (simp only: evs newEvents_append)
    then show ?thesis by (rule runAider_commands)
  qed
  from a consider
      m where "ExecCommand cmd \<in>
        set (newEvents tr (snd (runAider e m (filter keepFile filesToEdit) ?tr1)))"
    | "ExecCommand cmd \<in> set (newEvents tr ?tr1)"
    by (auto simp: editFilesToMeetRequirements_def Let_def split: if_splits)
  then show ?thesis
  proof cases
    case 1
    then show ?thesis using aider by blast
  next
    case 2
    then show ?thesis by simp
  qed
qed

text \<open>The editor's whole run when a key is set and the history file can be created, and
  when no key is set.\<close>

lemma runAider_built:
  "writeFileSyncError e
     (tr @ [Mkdir ''.nous/aider/llm-history'',
            WriteFileSync (''.nous/aider/llm-history/'' @ agentId e @ ''-'' @
              dateNow e (tr @ [Mkdir ''.nous/aider/llm-history'']))]) = None \<Longrightarrow>
   snd (runAider e modelArg fs tr) =
     tr @ [Mkdir ''.nous/aider/llm-history'',
           WriteFileSync (''.nous/aider/llm-history/'' @ agentId e @ ''-'' @
             dateNow e (tr @ [Mkdir ''.nous/aider/llm-history''])),
           ExecCommand (aiderCommand modelArg
             (''.nous/aider/llm-history/'' @ agentId e @ ''-'' @
               dateNow e (tr @ [Mkdir ''.nous/aider/llm-history''])) fs)]"
  by (simp add: runAider_def Let_def)

lemma editFiles_chooses:
  "editFilesToMeetRequirements e requirements filesToEdit tr =
     (if anthropicKeySet e \<or> deepSeekKeySet e \<or> openaiKeySet e
      then runAider e
             (if anthropicKeySet e then ''--sonnet''
              else if deepSeekKeySet e then ''--model deepseek/deepseek-coder'' else [])
             (filter keepFile filesToEdit)
             (tr @ [EditFilesToMeetRequirements requirements filesToEdit,
                    WriteFile messageFilePath requirements])
      else (Inl ''Aider code editing requires a key for Anthropic, Deepseek or OpenAI'',
            tr @ [EditFilesToMeetRequirements requirements filesToEdit,
                  WriteFile messageFilePath requirements]))"
  by (simp add: editFilesToMeetRequirements_def Let_def anthropicKeySet_def deepSeekKeySet_def
      openaiKeySet_def)

lemma editFiles_built:
  assumes "anthropicKeySet e \<or> deepSeekKeySet e \<or> openaiKeySet e"
    and "historyFileError e requirements filesToEdit tr = None"
  shows "newEvents tr (snd (editFilesToMeetRequirements e requirements filesToEdit tr)) =
     editorSetup requirements filesToEdit @
     [WriteFileSync (historyFile e requirements filesToEdit tr),
      ExecCommand
        (''aider --no-check-update --yes '' @
         (if anthropicKeySet e then ''--sonnet''
          else if deepSeekKeySet e then ''--model deepseek/deepseek-coder'' else []) @
         '' --llm-history-file='' @ quoted (historyFile e requirements filesToEdit tr) @
         '' --message-file=.aider-requirements '' @
         join '' '' (map quoted (nonBlankPaths filesToEdit)))]"
proof -
  let ?tr1 = "tr @ [EditFilesToMeetRequirements requirements filesToEdit,
                    WriteFile messageFilePath requirements]"
  let ?m = "if anthropicKeySet e then ''--sonnet''
          else if deepSeekKeySet e then ''--model deepseek/deepseek-coder'' else []"
  have h: "historyFile e requirements filesToEdit tr =
      ''.nous/aider/llm-history/'' @ agentId e @ ''-'' @
        dateNow e (?tr1 @ [Mkdir ''.nous/aider/llm-history''])"
    by (simp add: historyFile_def editorSetup_def)
  have ok: "writeFileSyncError e
     (?tr1 @ [Mkdir ''.nous/aider/llm-history'',
            WriteFileSync (''.nous/aider/llm-history/'' @ agentId e @ ''-'' @
              dateNow e (?tr1 @ [Mkdir ''.nous/aider/llm-history'']))]) = None"
    using assms(2) by (simp add: historyFileError_def historyFile_def editorSetup_def)
  have "snd (editFilesToMeetRequirements e requirements filesToEdit tr) =
      snd (runAider e ?m (filter keepFile filesToEdit) ?tr1)"
    using assms(1) by (simp only: editFiles_chooses if_True)
  also have "\<dots> = ?tr1 @ [Mkdir ''.nous/aider/llm-history'',
           WriteFileSync (historyFile e requirements filesToEdit tr),
           ExecCommand (aiderCommand ?m (historyFile e requirements filesToEdit tr)
             (filter keepFile filesToEdit))]"
    using runAider_built [OF ok, of ?m "filter keepFile filesToEdit"] by (simp only: h)
  finally show ?thesis
    by (simp add: aiderCommand_filtered editorSetup_def)
qed

lemma editFiles_no_key:
  "\<not> (anthropicKeySet e \<or> deepSeekKeySet e \<or> openaiKeySet e) \<Longrightarrow>
   editFilesToMeetRequirements e requirements filesToEdit tr =
     (Inl ''Aider code editing requires a key for Anthropic, Deepseek or OpenAI'',
      tr @ [EditFilesToMeetRequirements requirements filesToEdit,
            WriteFile messageFilePath requirements])"
  by (simp only: editFiles_chooses if_False)

text \<open>
  Claim C10. \<^verbatim>\<open>editFilesToMeetRequirements\<close> drops the null, empty and white-space-only
  entries of its file list before it builds the command: every command it runs ends with
  the quoted non-blank paths of the input, joined by spaces, and these paths stand in the
  input in the same order. Whenever a key is set and the history file can be created, it
  does build and run that command, for every file list: the calls it makes are the write of
  the requirements, the creation of the history directory and file, and the one command,
  with the model argument of the first key set. With no key set it throws before it builds
  any command.
\<close>

theorem editor_command_lists_non_blank_files:
  "subseq (map Some (nonBlankPaths filesToEdit)) filesToEdit
   \<and> (ExecCommand cmd \<in>
        set (newEvents tr (snd (editFilesToMeetRequirements e requirements filesToEdit tr))) \<longrightarrow>
       (\<exists>modelArg llmHistoryFile.
          cmd = ''aider --no-check-update --yes '' @ modelArg @ '' --llm-history-file='' @
                quoted llmHistoryFile @ '' --message-file=.aider-requirements '' @
                join '' '' (map quoted (nonBlankPaths filesToEdit))))
   \<and> ((anthropicKeySet e \<or> deepSeekKeySet e \<or> openaiKeySet e)
        \<and> historyFileError e requirements filesToEdit tr = None \<longrightarrow>
       newEvents tr (snd (editFilesToMeetRequirements e requirements filesToEdit tr)) =
         editorSetup requirements filesToEdit @
         [WriteFileSync (historyFile e requirements filesToEdit tr),
          ExecCommand
            (''aider --no-check-update --yes '' @
             (if anthropicKeySet e then ''--sonnet''
              else if deepSeekKeySet e then ''--model deepseek/deepseek-coder'' else []) @
             '' --llm-history-file='' @ quoted (historyFile e requirements filesToEdit tr) @
             '' --message-file=.aider-requirements '' @
             join '' '' (map quoted (nonBlankPaths filesToEdit)))])
   \<and> (\<not> (anthropicKeySet e \<or> deepSeekKeySet e \<or> openaiKeySet e) \<longrightarrow>
        editFilesToMeetRequirements e requirements filesToEdit tr =
          (Inl ''Aider code editing requires a key for Anthropic, Deepseek or OpenAI'',
           tr @ [EditFilesToMeetRequirements requirements filesToEdit,
                 WriteFile messageFilePath requirements]))"
proof -
  have c2: "ExecCommand cmd \<in>
        set (newEvents tr (snd (editFilesToMeetRequirements e requirements filesToEdit tr))) \<longrightarrow>
       (\<exists>modelArg llmHistoryFile.
          cmd = ''aider --no-check-update --yes '' @ modelArg @ '' --llm-history-file='' @
                quoted llmHistoryFile @ '' --message-file=.aider-requirements '' @
                join '' '' (map quoted (nonBlankPaths filesToEdit)))"
    using editFiles_commands [of cmd tr e requirements filesToEdit]
      aiderCommand_filtered [of _ _ filesToEdit]
    by metis
  show ?thesis
    using subseq_nonBlankPaths [of filesToEdit] c2
      editFiles_built [of e requirements filesToEdit tr]
      editFiles_no_key [of e requirements filesToEdit tr]
    by blast
qed

text \<open>The editor of the example environment, given \<open>blankEntries\<close>, runs the command
  with the two paths \<^verbatim>\<open>a.ts\<close> and \<^verbatim>\<open>b c.ts\<close>; so does the editor with a Deepseek key,
  with its own model argument; the editor with no key throws.\<close>

theorem editor_command_lists_non_blank_files_witness:
  "ExecCommand (''aider --no-check-update --yes --sonnet --llm-history-file='' @
       quoted ''.nous/aider/llm-history/agent-1'' @
       '' --message-file=.aider-requirements '' @ quoted ''a.ts'' @ '' '' @ quoted ''b c.ts'')
     \<in> set (newEvents []
           (snd (editFilesToMeetRequirements exampleEnv ''add a flag'' blankEntries [])))
   \<and> nonBlankPaths blankEntries = [''a.ts'', ''b c.ts'']
   \<and> anthropicKeySet exampleEnv
   \<and> historyFileError exampleEnv ''add a flag'' blankEntries [] = None
   \<and> newEvents [] (snd (editFilesToMeetRequirements exampleEnv ''add a flag'' blankEntries [])) =
       [EditFilesToMeetRequirements ''add a flag'' blankEntries,
        WriteFile ''.aider-requirements'' ''add a flag'', Mkdir ''.nous/aider/llm-history'',
        WriteFileSync ''.nous/aider/llm-history/agent-1'',
        ExecCommand (''aider --no-check-update --yes --sonnet --llm-history-file='' @
          quoted ''.nous/aider/llm-history/agent-1'' @
          '' --message-file=.aider-requirements '' @ quoted ''a.ts'' @ '' '' @ quoted ''b c.ts'')]
   \<and> \<not> anthropicKeySet deepSeekEnv \<and> deepSeekKeySet deepSeekEnv
   \<and> historyFileError deepSeekEnv ''add a flag'' blankEntries [] = None
   \<and> last (newEvents []
         (snd (editFilesToMeetRequirements deepSeekEnv ''add a flag'' blankEntries []))) =
       ExecCommand (''aider --no-check-update --yes --model deepseek/deepseek-coder'' @
          '' --llm-history-file='' @ quoted ''.nous/aider/llm-history/agent-1'' @
          '' --message-file=.aider-requirements '' @ quoted ''a.ts'' @ '' '' @ quoted ''b c.ts'')
   \<and> \<not> (anthropicKeySet noKeyEnv \<or> deepSeekKeySet noKeyEnv \<or> openaiKeySet noKeyEnv)
   \<and> editFilesToMeetRequirements noKeyEnv ''add a flag'' blankEntries [] =
       (Inl ''Aider code editing requires a key for Anthropic, Deepseek or OpenAI'',
        [EditFilesToMeetRequirements ''add a flag'' blankEntries,
         WriteFile ''.aider-requirements'' ''add a flag''])"
  using editor_command_lists_non_blank_files
      [of blankEntries _ "[]" exampleEnv "''add a flag''"]
    editor_command_lists_non_blank_files
      [of blankEntries _ "[]" deepSeekEnv "''add a flag''"]
    editor_command_lists_non_blank_files
      [of blankEntries _ "[]" noKeyEnv "''add a flag''"]
  by (simp add: editFilesToMeetRequirements_def runAider_def Let_def newEvents_def
      exampleEnv_def noKeyEnv_def deepSeekEnv_def blankEntries_def nonBlankPaths_def blank_def
      isWhiteSpace_def tab_def
      keepFile_def trim_def orElse_def truthy_def aiderCommand_def quoted_def dquote_def
      interpolate_def messageFilePath_def succeeded_def anthropicKeySet_def deepSeekKeySet_def
      openaiKeySet_def historyFileError_def historyFile_def editorSetup_def)

section \<open>How the trace grows\<close>

lemma compile_eq: "compile e p tr = (r, tr1) \<Longrightarrow> tr1 = tr @ [Compile, ExecCommand (compileCmd p)]"
  by (auto simp: compile_def Let_def split: if_splits)

lemma installAll_append: "installAll p packages tr = tr @ installAll p packages []"
proof (induction packages arbitrary: tr)
  case Nil
  show ?case by simp
next
  case (Cons packageName rest)
  show ?case
    using Cons.IH [of "tr @ [InstallPackage packageName]"] Cons.IH [of tr]
      Cons.IH [of "[InstallPackage packageName]"] Cons.IH [of "[]"]
    by simp
qed

lemma installAll_events: "ev \<in> set (installAll p packages []) \<Longrightarrow> \<exists>n. ev = InstallPackage n"
proof (induction packages arbitrary: ev)
  case Nil
  then show ?case by simp
next
  case (Cons packageName rest)
  then show ?case
    using installAll_append [of p rest "[InstallPackage packageName]"]
    by (auto split: if_splits)
qed

lemma installAll_filter:
  "(\<And>n. \<not> P (InstallPackage n)) \<Longrightarrow> filter P (installAll p packages tr) = filter P tr"
proof -
  assume a: "\<And>n. \<not> P (InstallPackage n)"
  have "filter P (installAll p packages []) = []"
    using a installAll_events [of _ p packages] by (auto simp: filter_empty_conv)
  then show ?thesis using installAll_append [of p packages tr] by simp
qed

lemma runAider_filter:
  assumes "\<And>a. \<not> P (Mkdir a)" "\<And>a. \<not> P (WriteFileSync a)" "\<And>a. \<not> P (ExecCommand a)"
  shows "filter P (snd (runAider e m f tr)) = filter P tr"
  using assms by (simp add: runAider_def Let_def split: option.splits)

lemma runAider_events:
  "\<exists>evs. snd (runAider e m f tr) = tr @ evs \<and> filter isEditorCall evs = []
     \<and> filter (\<lambda>ev. ev = Compile) evs = []"
  by (simp add: runAider_def Let_def split: option.splits)

lemma editFiles_filter:
  assumes "\<And>r f. \<not> P (EditFilesToMeetRequirements r f)" "\<And>a b. \<not> P (WriteFile a b)"
    "\<And>a. \<not> P (Mkdir a)" "\<And>a. \<not> P (WriteFileSync a)" "\<And>a. \<not> P (ExecCommand a)"
  shows "filter P (snd (editFilesToMeetRequirements e r f tr)) = filter P tr"
  using assms by (simp add: editFilesToMeetRequirements_def Let_def runAider_filter)

lemma editFiles_first:
  "\<exists>evs. snd (editFilesToMeetRequirements e r f tr) = tr @ EditFilesToMeetRequirements r f # evs
     \<and> filter isEditorCall evs = [] \<and> filter (\<lambda>ev. ev = Compile) evs = []"
proof -
  let ?tr1 = "tr @ [EditFilesToMeetRequirements r f, WriteFile messageFilePath r]"
  have aider: "\<And>m. \<exists>evs. snd (runAider e m (filter keepFile f) ?tr1) = tr @ EditFilesToMeetRequirements r f # evs
     \<and> filter isEditorCall evs = [] \<and> filter (\<lambda>ev. ev = Compile) evs = []"
  proof -
    fix m
    obtain evs where "snd (runAider e m (filter keepFile f) ?tr1) = ?tr1 @ evs"
      "filter isEditorCall evs = []" "filter (\<lambda>ev. ev = Compile) evs = []"
      using runAider_events [of e m "filter keepFile f" ?tr1] by blast
    then have "snd (runAider e m (filter keepFile f) ?tr1) =
        tr @ EditFilesToMeetRequirements r f # (WriteFile messageFilePath r # evs)
      \<and> filter isEditorCall (WriteFile messageFilePath r # evs) = []
      \<and> filter (\<lambda>ev. ev = Compile) (WriteFile messageFilePath r # evs) = []"
      by simp
    then show "\<exists>evs. snd (runAider e m (filter keepFile f) ?tr1) = tr @ EditFilesToMeetRequirements r f # evs
     \<and> filter isEditorCall evs = [] \<and> filter (\<lambda>ev. ev = Compile) evs = []"
      by blast
  qed
  show ?thesis
    using aider by (simp add: editFilesToMeetRequirements_def Let_def)
qed

lemma editFiles_eq_filter:
  assumes "editFilesToMeetRequirements e r f tr = (res, tr1)"
    "\<And>r f. \<not> P (EditFilesToMeetRequirements r f)" "\<And>a b. \<not> P (WriteFile a b)"
    "\<And>a. \<not> P (Mkdir a)" "\<And>a. \<not> P (WriteFileSync a)" "\<And>a. \<not> P (ExecCommand a)"
  shows "filter P tr1 = filter P tr"
  using editFiles_filter [of P e r f tr] assms by simp

lemma editThenCompile_filter:
  assumes "\<And>r f. \<not> P (EditFilesToMeetRequirements r f)" "\<And>a b. \<not> P (WriteFile a b)"
    "\<And>a. \<not> P (Mkdir a)" "\<And>a. \<not> P (WriteFileSync a)" "\<And>a. \<not> P (ExecCommand a)"
    "\<not> P Compile" "\<not> P GetFilesAddedInHeadCommit"
  shows "filter P (snd (snd (editThenCompile e p r fs st tr))) = filter P tr"
proof -
  obtain res tr1 where ed: "editFilesToMeetRequirements e r (map Some fs) tr = (res, tr1)"
    by fastforce
  have f1: "filter P tr1 = filter P tr"
    using editFiles_filter [of P e r "map Some fs" tr] assms ed by simp
  show ?thesis
  proof (cases res)
    case (Inl m)
    then show ?thesis using ed f1 by (simp add: editThenCompile_def)
  next
    case (Inr u)
    obtain res2 tr3 where c: "compile e p (tr1 @ [GetFilesAddedInHeadCommit]) = (res2, tr3)"
      by fastforce
    have "filter P tr3 = filter P tr"
      using compile_eq [OF c] f1 assms by simp
    then show ?thesis
      using ed Inr c by (cases res2) (simp_all add: editThenCompile_def Let_def)
  qed
qed

lemma editCompileTry_null:
  "errorAnalysis st = None \<Longrightarrow>
   editCompileTry e p spec i st tr = (Inl nullInstallPackages, st, tr)"
  by (simp add: editCompileTry_def)

lemma editCompileTry_filter:
  assumes "\<And>r f. \<not> P (EditFilesToMeetRequirements r f)" "\<And>a b. \<not> P (WriteFile a b)"
    "\<And>a. \<not> P (Mkdir a)" "\<And>a. \<not> P (WriteFileSync a)" "\<And>a. \<not> P (ExecCommand a)"
    "\<not> P Compile" "\<not> P GetFilesAddedInHeadCommit" "\<And>n. \<not> P (InstallPackage n)"
  shows "filter P (snd (snd (editCompileTry e p spec i st tr))) = filter P tr"
proof (cases "errorAnalysis st")
  case None
  then show ?thesis by (simp add: editCompileTry_null)
next
  case (Some a)
  define tr1 where
    "tr1 = (case installPackages a of None \<Rightarrow> tr | Some packages \<Rightarrow> installAll p packages tr)"
  have f1: "filter P tr1 = filter P tr"
    using assms(8) by (simp add: tr1_def installAll_filter split: option.splits)
  obtain res tr2 where c: "(if i = 0 then compile e p tr1 else (Inr (), tr1)) = (res, tr2)"
    by fastforce
  have f2: "filter P tr2 = filter P tr"
  proof (cases "i = 0")
    case True
    with c have "compile e p tr1 = (res, tr2)" by simp
    from compile_eq [OF this] f1 assms show ?thesis by simp
  next
    case False
    with c f1 show ?thesis by simp
  qed
  show ?thesis
  proof (cases res)
    case (Inl m)
    then show ?thesis
      using Some c f2 by (simp add: editCompileTry_def Let_def tr1_def [symmetric])
  next
    case (Inr u)
    then show ?thesis
      using Some c f2 editThenCompile_filter [of P, OF assms(1-7)]
      by (simp add: editCompileTry_def Let_def tr1_def [symmetric])
  qed
qed

lemma editCompileCatch_filter:
  "(\<And>m fs. \<not> P (AnalyzeCompileErrors m fs)) \<Longrightarrow>
   filter P (snd (editCompileCatch e m st tr)) = filter P tr"
  by (simp add: editCompileCatch_def Let_def)

lemma editCompileLoop_filter:
  assumes "\<And>r f. \<not> P (EditFilesToMeetRequirements r f)" "\<And>a b. \<not> P (WriteFile a b)"
    "\<And>a. \<not> P (Mkdir a)" "\<And>a. \<not> P (WriteFileSync a)" "\<And>a. \<not> P (ExecCommand a)"
    "\<not> P Compile" "\<not> P GetFilesAddedInHeadCommit" "\<And>n. \<not> P (InstallPackage n)"
    "\<And>m fs. \<not> P (AnalyzeCompileErrors m fs)"
  shows "filter P (snd (editCompileLoop e p spec i st tr)) = filter P tr"
proof (induction e p spec i st tr rule: editCompileLoop.induct)
  case (1 e p spec i st tr)
  show ?case
  proof (cases "i < MAX_ATTEMPTS")
    case False
    then show ?thesis by (simp add: editCompileLoop.simps [of e p spec i st tr])
  next
    case True
    obtain res st1 tr1 where t: "editCompileTry e p spec i st tr = (res, st1, tr1)"
      by (metis prod_cases3)
    have f1: "filter P tr1 = filter P tr"
      using editCompileTry_filter [of P e p spec i st tr, OF assms(1-8)] t by simp
    show ?thesis
    proof (cases res)
      case (Inr u)
      then show ?thesis
        using True t f1 by (simp add: editCompileLoop.simps [of e p spec i st tr])
    next
      case (Inl m)
      obtain st2 tr2 where k: "editCompileCatch e m st1 tr1 = (st2, tr2)"
        by fastforce
      have f2: "filter P tr2 = filter P tr"
        using editCompileCatch_filter [of P e m st1 tr1, OF assms(9)] k f1 by simp
      have "filter P (snd (editCompileLoop e p spec (i + 1) st2 tr2)) = filter P tr2"
        using "1.IH" [OF True t [symmetric] Inl refl k [symmetric]] by simp
      then show ?thesis
        using True t Inl k f2 by (simp add: editCompileLoop.simps [of e p spec i st tr])
    qed
  qed
qed

section \<open>The compile gate\<close>

lemma resolveProjectInfo_filter:
  "\<not> P DetectProjectInfo \<Longrightarrow> filter P (snd (resolveProjectInfo e projectInfo tr)) = filter P tr"
  by (simp add: resolveProjectInfo_def Let_def split: option.splits)

lemma selectAndSpecify_filter:
  assumes "\<And>d. \<not> P (SetWorkingDirectory d)" "\<And>r. \<not> P (SelectFilesToEdit r)"
    "\<And>fs. \<not> P (GetMultipleFileContentsAsXml fs)" "\<And>t. \<not> P (GenerateText t)"
  shows "filter P (snd (selectAndSpecify e requirements p tr)) = filter P tr"
  using assms by (simp add: selectAndSpecify_def Let_def)

text \<open>
  Claim C1. When the edit-compile loop ends with \<^verbatim>\<open>errorAnalysis\<close> still set (its last
  round did not compile), \<^verbatim>\<open>runCodeEditWorkflow\<close> returns at once: the trace of the whole
  run is the trace at the end of the loop, and the run has added no static-analysis run,
  no commit, no entry into the test loop and no test run.
\<close>

theorem compile_gate:
  assumes "resolveProjectInfo e projectInfo tr = (Inr p, tr1)"
    and "selectAndSpecify e requirements p tr1 = ((fs, spec), tr2)"
    and "editCompileLoop e p spec 0 (startState fs) tr2 = (st, tr3)"
    and "errorAnalysis st \<noteq> None"
  shows "runCodeEditWorkflow e requirements projectInfo tr = (Inr (), tr3)
         \<and> filter laterStage tr3 = filter laterStage tr"
proof
  show "runCodeEditWorkflow e requirements projectInfo tr = (Inr (), tr3)"
    using assms by (simp add: runCodeEditWorkflow_def afterEditCompile_def)
next
  have "filter laterStage tr1 = filter laterStage tr"
    using resolveProjectInfo_filter [of laterStage e projectInfo tr] assms(1) by simp
  moreover have "filter laterStage tr2 = filter laterStage tr1"
    using selectAndSpecify_filter [of laterStage e requirements p tr1] assms(2) by simp
  moreover have "filter laterStage tr3 = filter laterStage tr2"
    using editCompileLoop_filter [of laterStage e p spec 0 "startState fs" tr2] assms(3) by simp
  ultimately show "filter laterStage tr3 = filter laterStage tr" by simp
qed

lemma editCompileLoop_first_round:
  "errorAnalysis st = None \<Longrightarrow>
   editCompileLoop e p spec 0 st tr =
     editCompileLoop e p spec (Suc 0) (fst (editCompileCatch e nullInstallPackages st tr))
       (snd (editCompileCatch e nullInstallPackages st tr))"
  by (simp add: editCompileLoop.simps [of e p spec 0 st tr] MAX_ATTEMPTS_def editCompileTry_null
      split: prod.splits)

lemma editCompileLoop_last_round:
  "editCompileLoop e p spec (Suc 0) st tr =
     (case editCompileTry e p spec (Suc 0) st tr of
        (Inr u, st1, tr1) \<Rightarrow> (st1, tr1)
      | (Inl m, st1, tr1) \<Rightarrow> editCompileCatch e m st1 tr1)"
  by (simp add: editCompileLoop.simps [of e p spec "Suc 0" st tr]
      editCompileLoop.simps [of e p spec "Suc (Suc 0)"] MAX_ATTEMPTS_def
      split: prod.splits sum.splits)

lemma compileFails_exhausted:
  "errorAnalysis (fst (editCompileLoop compileFailsEnv exampleProject spec 0 (startState fs) tr)) \<noteq> None"
  by (simp add: editCompileLoop_first_round editCompileLoop_last_round startState_def
      editCompileCatch_def editCompileTry_def editThenCompile_def Let_def compile_def
      compileFailsEnv_def exampleEnv_def exampleProject_def exitsWith_def
      split: prod.splits sum.splits)

text \<open>The run in which the compile command always fails.\<close>

theorem compile_gate_witness:
  "errorAnalysis (fst (editCompileLoop compileFailsEnv exampleProject ''design'' 0
       (startState [''a.ts'', ''b.ts''])
       (snd (selectAndSpecify compileFailsEnv ''add a flag'' exampleProject [DetectProjectInfo]))))
     \<noteq> None
   \<and> fst (runCodeEditWorkflow compileFailsEnv ''add a flag'' None []) = Inr ()
   \<and> filter laterStage (snd (runCodeEditWorkflow compileFailsEnv ''add a flag'' None [])) = []"
proof -
  let ?tr2 = "snd (selectAndSpecify compileFailsEnv ''add a flag'' exampleProject [DetectProjectInfo])"
  let ?run = "editCompileLoop compileFailsEnv exampleProject ''design'' 0
       (startState [''a.ts'', ''b.ts'']) ?tr2"
  have h1: "resolveProjectInfo compileFailsEnv None [] = (Inr exampleProject, [DetectProjectInfo])"
    by (simp add: resolveProjectInfo_def compileFailsEnv_def exampleEnv_def)
  have h2: "selectAndSpecify compileFailsEnv ''add a flag'' exampleProject [DetectProjectInfo] =
      (([''a.ts'', ''b.ts''], ''design''), ?tr2)"
    by (simp add: selectAndSpecify_def compileFailsEnv_def exampleEnv_def Let_def)
  have h3: "?run = (fst ?run, snd ?run)" by simp
  have h4: "errorAnalysis (fst ?run) \<noteq> None" by (rule compileFails_exhausted)
  show ?thesis
    using compile_gate [OF h1 h2 h3 h4] h4 by simp
qed

section \<open>The rounds of the edit-compile loop\<close>

lemma editThenCompile_events:
  "\<exists>evs. snd (snd (editThenCompile e p r fs st tr)) =
           tr @ EditFilesToMeetRequirements r (map Some fs) # evs
     \<and> filter isEditorCall evs = [] \<and> length (filter (\<lambda>ev. ev = Compile) evs) \<le> 1"
proof -
  obtain evs0 where e0:
    "snd (editFilesToMeetRequirements e r (map Some fs) tr) =
       tr @ EditFilesToMeetRequirements r (map Some fs) # evs0"
    "filter isEditorCall evs0 = []" "filter (\<lambda>ev. ev = Compile) evs0 = []"
    using editFiles_first [of e r "map Some fs" tr] by blast
  obtain res tr1 where ed: "editFilesToMeetRequirements e r (map Some fs) tr = (res, tr1)"
    by fastforce
  with e0 have tr1: "tr1 = tr @ EditFilesToMeetRequirements r (map Some fs) # evs0" by simp
  show ?thesis
  proof (cases res)
    case (Inl m)
    then have "snd (snd (editThenCompile e p r fs st tr)) = tr1"
      using ed by (simp add: editThenCompile_def)
    with tr1 e0 show ?thesis by simp
  next
    case (Inr u)
    obtain res2 tr3 where c: "compile e p (tr1 @ [GetFilesAddedInHeadCommit]) = (res2, tr3)"
      by fastforce
    have "snd (snd (editThenCompile e p r fs st tr)) = tr3"
      using ed Inr c by (cases res2) (simp_all add: editThenCompile_def Let_def)
    moreover have "tr3 = tr @ EditFilesToMeetRequirements r (map Some fs) #
        (evs0 @ [GetFilesAddedInHeadCommit, Compile, ExecCommand (compileCmd p)])"
      using compile_eq [OF c] tr1 by simp
    ultimately show ?thesis using e0 by simp
  qed
qed

lemma editCompileTry_retry:
  assumes "errorAnalysis st = Some a" "i \<noteq> 0"
  shows "\<exists>ins. filter isEditorCall ins = [] \<and> filter (\<lambda>ev. ev = Compile) ins = []
     \<and> editCompileTry e p spec i st tr =
         editThenCompile e p (retryRequirements spec (compileErrorOutput st))
           (initialSelectedFiles st @ diagnosisFiles a) st (tr @ ins)"
proof -
  define ins where
    "ins = (case installPackages a of None \<Rightarrow> [] | Some packages \<Rightarrow> installAll p packages [])"
  have tr1: "(case installPackages a of None \<Rightarrow> tr | Some packages \<Rightarrow> installAll p packages tr)
      = tr @ ins"
    using installAll_append [of p _ tr] by (simp add: ins_def split: option.splits)
  have i1: "filter isEditorCall ins = []"
    using installAll_filter [of isEditorCall p _ "[]"] by (simp add: ins_def split: option.splits)
  have i2: "filter (\<lambda>ev. ev = Compile) ins = []"
    using installAll_filter [of "\<lambda>ev. ev = Compile" p _ "[]"]
    by (simp add: ins_def split: option.splits)
  have "editCompileTry e p spec i st tr =
      editThenCompile e p (retryRequirements spec (compileErrorOutput st))
        (initialSelectedFiles st @ diagnosisFiles a) st (tr @ ins)"
    using assms tr1
    by (simp add: editCompileTry_def Let_def retryRequirements_def diagnosisFiles_def)
  with i1 i2 show ?thesis by blast
qed

lemma editCompileCatch_first:
  "editCompileCatch e nullInstallPackages (startState fs) tr =
     (\<lparr>initialSelectedFiles = fs,
        errorAnalysis = Some (analyzeCompileErrors e
          (tr @ [AnalyzeCompileErrors nullInstallPackages fs])),
        compileErrorOutput = Some nullInstallPackages\<rparr>,
      tr @ [AnalyzeCompileErrors nullInstallPackages fs])"
  by (simp add: editCompileCatch_def Let_def startState_def)

text \<open>The whole loop, started as the workflow starts it: the analyzer's call of round 0,
  then round 1, which is some package installations followed by \<open>editThenCompile\<close>.\<close>

lemma editCompileLoop_from_start:
  "\<exists>ins st1. filter isEditorCall ins = [] \<and> filter (\<lambda>ev. ev = Compile) ins = []
     \<and> initialSelectedFiles st1 = fs \<and> compileErrorOutput st1 = Some nullInstallPackages
     \<and> errorAnalysis st1 \<noteq> None
     \<and> editCompileLoop e p spec 0 (startState fs) tr =
         (case editThenCompile e p (retryRequirements spec (Some nullInstallPackages))
                 (fs @ diagnosisFiles (analyzeCompileErrors e
                    (tr @ [AnalyzeCompileErrors nullInstallPackages fs])))
                 st1 (tr @ AnalyzeCompileErrors nullInstallPackages fs # ins) of
            (Inr u, st2, tr2) \<Rightarrow> (st2, tr2)
          | (Inl m, st2, tr2) \<Rightarrow> editCompileCatch e m st2 tr2)"
proof -
  let ?tr1 = "tr @ [AnalyzeCompileErrors nullInstallPackages fs]"
  let ?a = "analyzeCompileErrors e ?tr1"
  define st1 where "st1 = \<lparr>initialSelectedFiles = fs, errorAnalysis = Some ?a,
    compileErrorOutput = Some nullInstallPackages\<rparr>"
  have c: "editCompileCatch e nullInstallPackages (startState fs) tr = (st1, ?tr1)"
    by (simp add: editCompileCatch_first st1_def)
  have loop: "editCompileLoop e p spec 0 (startState fs) tr =
      (case editCompileTry e p spec (Suc 0) st1 ?tr1 of
         (Inr u, st2, tr2) \<Rightarrow> (st2, tr2)
       | (Inl m, st2, tr2) \<Rightarrow> editCompileCatch e m st2 tr2)"
    using editCompileLoop_first_round [of "startState fs" e p spec tr] c
    by (simp add: startState_def editCompileLoop_last_round)
  obtain ins where ins: "filter isEditorCall ins = []" "filter (\<lambda>ev. ev = Compile) ins = []"
    "editCompileTry e p spec (Suc 0) st1 ?tr1 =
       editThenCompile e p (retryRequirements spec (compileErrorOutput st1))
         (initialSelectedFiles st1 @ diagnosisFiles ?a) st1 (?tr1 @ ins)"
    using editCompileTry_retry [of st1 ?a "Suc 0" e p spec ?tr1] by (auto simp: st1_def)
  have "editCompileLoop e p spec 0 (startState fs) tr =
         (case editThenCompile e p (retryRequirements spec (Some nullInstallPackages))
                 (fs @ diagnosisFiles ?a) st1
                 (tr @ AnalyzeCompileErrors nullInstallPackages fs # ins) of
            (Inr u, st2, tr2) \<Rightarrow> (st2, tr2)
          | (Inl m, st2, tr2) \<Rightarrow> editCompileCatch e m st2 tr2)"
    using loop ins(3) by (simp add: st1_def)
  moreover have "initialSelectedFiles st1 = fs" "compileErrorOutput st1 = Some nullInstallPackages"
    "errorAnalysis st1 \<noteq> None"
    by (simp_all add: st1_def)
  ultimately show ?thesis using ins(1,2) by blast
qed

lemma editThenCompile_state:
  assumes "editThenCompile e p r fs st tr = (res, st2, tr2)"
  shows "compileErrorOutput st2 = compileErrorOutput st"
    and "initialSelectedFiles st2 = initialSelectedFiles st
         \<or> (\<exists>t. initialSelectedFiles st2 = initialSelectedFiles st @ getFilesAddedInHeadCommit e t)"
    and "res = Inr () \<Longrightarrow> errorAnalysis st2 = None"
    and "res \<noteq> Inr () \<Longrightarrow> errorAnalysis st2 = errorAnalysis st"
proof -
  obtain res1 tr1 where ed: "editFilesToMeetRequirements e r (map Some fs) tr = (res1, tr1)"
    by fastforce
  let ?st1 = "st\<lparr>initialSelectedFiles := initialSelectedFiles st @
      getFilesAddedInHeadCommit e (tr1 @ [GetFilesAddedInHeadCommit])\<rparr>"
  obtain res3 tr3 where c: "compile e p (tr1 @ [GetFilesAddedInHeadCommit]) = (res3, tr3)"
    by fastforce
  have shape: "(res, st2) = (res1, st) \<and> res1 \<noteq> Inr ()
      \<or> (res, st2) = (res3, ?st1) \<and> res3 \<noteq> Inr ()
      \<or> (res, st2) = (Inr (), ?st1\<lparr>errorAnalysis := None\<rparr>)"
    using assms ed c
    by (cases res1; cases res3) (auto simp: editThenCompile_def Let_def)
  from shape show "compileErrorOutput st2 = compileErrorOutput st" by auto
  from shape show "initialSelectedFiles st2 = initialSelectedFiles st
         \<or> (\<exists>t. initialSelectedFiles st2 = initialSelectedFiles st @ getFilesAddedInHeadCommit e t)"
    by auto
  from shape show "res = Inr () \<Longrightarrow> errorAnalysis st2 = None" by auto
  from shape show "res \<noteq> Inr () \<Longrightarrow> errorAnalysis st2 = errorAnalysis st" by auto
qed

lemma editCompileTry_files:
  assumes "editCompileTry e p spec i st tr = (res, st2, tr2)"
  shows "initialSelectedFiles st2 = initialSelectedFiles st
         \<or> (\<exists>t. initialSelectedFiles st2 = initialSelectedFiles st @ getFilesAddedInHeadCommit e t)"
proof (cases "errorAnalysis st")
  case None
  then show ?thesis using assms by (simp add: editCompileTry_null)
next
  case (Some a)
  define tr1 where
    "tr1 = (case installPackages a of None \<Rightarrow> tr | Some packages \<Rightarrow> installAll p packages tr)"
  obtain res1 tr3 where c: "(if i = 0 then compile e p tr1 else (Inr (), tr1)) = (res1, tr3)"
    by fastforce
  show ?thesis
  proof (cases res1)
    case (Inl m)
    then have "st2 = st"
      using assms Some c by (simp add: editCompileTry_def Let_def tr1_def [symmetric])
    then show ?thesis by simp
  next
    case (Inr u)
    then obtain r fs where "editThenCompile e p r fs st tr3 = (res, st2, tr2)"
      using assms Some c by (simp add: editCompileTry_def Let_def tr1_def [symmetric])
    then show ?thesis by (rule editThenCompile_state(2))
  qed
qed

lemma editCompileLoop_prefix:
  "prefix (initialSelectedFiles st) (initialSelectedFiles (fst (editCompileLoop e p spec i st tr)))"
proof (induction e p spec i st tr rule: editCompileLoop.induct)
  case (1 e p spec i st tr)
  show ?case
  proof (cases "i < MAX_ATTEMPTS")
    case False
    then show ?thesis by (simp add: editCompileLoop.simps [of e p spec i st tr])
  next
    case True
    obtain res st1 tr1 where t: "editCompileTry e p spec i st tr = (res, st1, tr1)"
      by (metis prod_cases3)
    have p1: "prefix (initialSelectedFiles st) (initialSelectedFiles st1)"
      using editCompileTry_files [OF t] by auto
    show ?thesis
    proof (cases res)
      case (Inr u)
      then show ?thesis
        using True t p1 by (simp add: editCompileLoop.simps [of e p spec i st tr])
    next
      case (Inl m)
      obtain st2 tr2 where k: "editCompileCatch e m st1 tr1 = (st2, tr2)"
        by fastforce
      then have s2: "initialSelectedFiles st2 = initialSelectedFiles st1"
        by (auto simp: editCompileCatch_def Let_def)
      have "prefix (initialSelectedFiles st2)
          (initialSelectedFiles (fst (editCompileLoop e p spec (i + 1) st2 tr2)))"
        using "1.IH" [OF True t [symmetric] Inl refl k [symmetric]] by simp
      then show ?thesis
        using True t Inl k s2 p1
        by (simp add: editCompileLoop.simps [of e p spec i st tr])
    qed
  qed
qed

lemma takeWhile_until:
  "filter P xs = [] \<Longrightarrow> P x \<Longrightarrow> takeWhile (\<lambda>ev. \<not> P ev) (xs @ x # ys) = xs"
  by (induction xs) (auto split: if_splits)

text \<open>The loop, started as the workflow starts it, in full: the events it adds, and the
  variables it leaves.\<close>

lemma editCompileLoop_run:
  obtains ins evs st2 where
    "snd (editCompileLoop e p spec 0 (startState fs) tr) =
       tr @ AnalyzeCompileErrors nullInstallPackages fs # ins @
       EditFilesToMeetRequirements (retryRequirements spec (Some nullInstallPackages))
         (map Some (fs @ diagnosisFiles (analyzeCompileErrors e
            (tr @ [AnalyzeCompileErrors nullInstallPackages fs])))) # evs"
    "filter isEditorCall ins = []" "filter (\<lambda>ev. ev = Compile) ins = []"
    "filter isEditorCall evs = []" "length (filter (\<lambda>ev. ev = Compile) evs) \<le> 1"
    "fst (editCompileLoop e p spec 0 (startState fs) tr) = st2"
    "initialSelectedFiles st2 = fs
       \<or> (\<exists>t. initialSelectedFiles st2 = fs @ getFilesAddedInHeadCommit e t)"
    "errorAnalysis st2 = None \<and> compileErrorOutput st2 = Some nullInstallPackages
       \<or> errorAnalysis st2 \<noteq> None \<and> compileErrorOutput st2 \<noteq> None"
proof -
  let ?a = "analyzeCompileErrors e (tr @ [AnalyzeCompileErrors nullInstallPackages fs])"
  let ?r = "retryRequirements spec (Some nullInstallPackages)"
  let ?edit = "EditFilesToMeetRequirements ?r (map Some (fs @ diagnosisFiles ?a))"
  obtain ins st1 where ins: "filter isEditorCall ins = []" "filter (\<lambda>ev. ev = Compile) ins = []"
    and st1: "initialSelectedFiles st1 = fs" "compileErrorOutput st1 = Some nullInstallPackages"
      "errorAnalysis st1 \<noteq> None"
    and loop: "editCompileLoop e p spec 0 (startState fs) tr =
         (case editThenCompile e p ?r (fs @ diagnosisFiles ?a) st1
                 (tr @ AnalyzeCompileErrors nullInstallPackages fs # ins) of
            (Inr u, st2, tr2) \<Rightarrow> (st2, tr2)
          | (Inl m, st2, tr2) \<Rightarrow> editCompileCatch e m st2 tr2)"
    using editCompileLoop_from_start [of fs e p spec tr] by blast
  let ?tr1 = "tr @ AnalyzeCompileErrors nullInstallPackages fs # ins"
  obtain res st2 tr2 where etc:
    "editThenCompile e p ?r (fs @ diagnosisFiles ?a) st1 ?tr1 = (res, st2, tr2)"
    by (metis prod_cases3)
  obtain evs where evs: "tr2 = ?tr1 @ ?edit # evs" "filter isEditorCall evs = []"
    "length (filter (\<lambda>ev. ev = Compile) evs) \<le> 1"
    using editThenCompile_events [of e p ?r "fs @ diagnosisFiles ?a" st1 ?tr1] etc by auto
  note state = editThenCompile_state [OF etc]
  show ?thesis
  proof (cases res)
    case (Inr u)
    then have run: "editCompileLoop e p spec 0 (startState fs) tr = (st2, tr2)"
      using loop etc by simp
    show ?thesis
    proof (rule that [of ins evs st2])
      show "snd (editCompileLoop e p spec 0 (startState fs) tr) =
          tr @ AnalyzeCompileErrors nullInstallPackages fs # ins @ ?edit # evs"
        using run evs(1) by simp
      show "fst (editCompileLoop e p spec 0 (startState fs) tr) = st2" using run by simp
      show "initialSelectedFiles st2 = fs
          \<or> (\<exists>t. initialSelectedFiles st2 = fs @ getFilesAddedInHeadCommit e t)"
        using state(2) st1 by simp
      show "errorAnalysis st2 = None \<and> compileErrorOutput st2 = Some nullInstallPackages
          \<or> errorAnalysis st2 \<noteq> None \<and> compileErrorOutput st2 \<noteq> None"
        using state(1,3) Inr st1 by simp
    qed (use ins evs in simp_all)
  next
    case (Inl m)
    let ?last = "AnalyzeCompileErrors m (initialSelectedFiles st2)"
    let ?st3 = "st2\<lparr>compileErrorOutput := Some m,
      errorAnalysis := Some (analyzeCompileErrors e (tr2 @ [?last]))\<rparr>"
    have run: "editCompileLoop e p spec 0 (startState fs) tr = (?st3, tr2 @ [?last])"
      using loop etc Inl by (simp add: editCompileCatch_def Let_def)
    show ?thesis
    proof (rule that [of ins "evs @ [?last]" ?st3])
      show "snd (editCompileLoop e p spec 0 (startState fs) tr) =
          tr @ AnalyzeCompileErrors nullInstallPackages fs # ins @ ?edit # evs @ [?last]"
        using run evs(1) by simp
      show "fst (editCompileLoop e p spec 0 (startState fs) tr) = ?st3" using run by simp
      show "initialSelectedFiles ?st3 = fs
          \<or> (\<exists>t. initialSelectedFiles ?st3 = fs @ getFilesAddedInHeadCommit e t)"
        using state(2) st1 by simp
      show "errorAnalysis ?st3 = None \<and> compileErrorOutput ?st3 = Some nullInstallPackages
          \<or> errorAnalysis ?st3 \<noteq> None \<and> compileErrorOutput ?st3 \<noteq> None"
        by simp
    qed (use ins evs in simp_all)
  qed
qed

text \<open>
  Claim C2 does not hold of the code. In every run, the first round of the edit-compile
  loop throws on line 76 before it reaches the baseline compile of line 83: the first
  event of the loop is the analyzer's call on the message of that \<^verbatim>\<open>TypeError\<close>. No
  compile runs before the first editor call, the loop calls the editor once, and it
  compiles at most once (after that call).
\<close>

theorem baseline_compile_never_runs:
  "\<exists>evs. snd (editCompileLoop e p spec 0 (startState fs) tr) =
           tr @ AnalyzeCompileErrors nullInstallPackages fs # evs
     \<and> compileCalls (takeWhile (\<lambda>ev. \<not> isEditorCall ev) evs) = 0
     \<and> editorCalls evs = 1 \<and> compileCalls evs \<le> 1"
proof -
  obtain ins evs edit where run:
    "snd (editCompileLoop e p spec 0 (startState fs) tr) =
       tr @ AnalyzeCompileErrors nullInstallPackages fs # ins @ edit # evs"
    and edit: "isEditorCall edit" "edit \<noteq> Compile"
    and i1: "filter isEditorCall ins = []" and i2: "filter (\<lambda>ev. ev = Compile) ins = []"
    and e1: "filter isEditorCall evs = []"
    and e2: "length (filter (\<lambda>ev. ev = Compile) evs) \<le> 1"
    using editCompileLoop_run [of e p spec fs tr] isEditorCall.simps(1) event.distinct
    by metis
  have "takeWhile (\<lambda>ev. \<not> isEditorCall ev) (ins @ edit # evs) = ins"
    using takeWhile_until [of isEditorCall ins edit evs] i1 edit by simp
  then have "compileCalls (takeWhile (\<lambda>ev. \<not> isEditorCall ev) (ins @ edit # evs)) = 0"
    using i2 by (simp add: compileCalls_def)
  moreover have "editorCalls (ins @ edit # evs) = 1"
    using i1 e1 edit by (simp add: editorCalls_def)
  moreover have "compileCalls (ins @ edit # evs) \<le> 1"
    using i2 e2 edit by (simp add: compileCalls_def)
  ultimately show ?thesis using run by blast
qed

text \<open>When the loop passes, \<^verbatim>\<open>compileErrorOutput\<close> still holds the message of round 0.\<close>

lemma passed_compileErrorOutput:
  "errorAnalysis (fst (editCompileLoop e p spec 0 (startState fs) tr)) = None \<Longrightarrow>
   compileErrorOutput (fst (editCompileLoop e p spec 0 (startState fs) tr)) =
     Some nullInstallPackages"
  using editCompileLoop_run [of e p spec fs tr] by metis

text \<open>
  Claim C3 does not hold of the code. When the compile command fails every time it runs,
  the workflow ends without an error after one editor call and one compile call, not two
  and three; no later stage runs. The two failures handed to the analyzer are the
  \<^verbatim>\<open>TypeError\<close> of round 0 and the compile failure of round 1.
\<close>

theorem compile_always_fails_one_edit_one_compile:
  "fst scenarioB = Inr () \<and> editorCalls (snd scenarioB) = 1 \<and> compileCalls (snd scenarioB) = 1
   \<and> filter laterStage (snd scenarioB) = []
   \<and> filter isAnalyzerCall (snd scenarioB) =
       [AnalyzeCompileErrors nullInstallPackages [''a.ts'', ''b.ts''],
        AnalyzeCompileErrors (compileOutput exampleProject (exitsWith 1))
          [''a.ts'', ''b.ts'', ''n.ts'']]"
  by code_simp

section \<open>The static-analysis loop: commits and repair\<close>

lemma editFiles_append: "\<exists>evs. snd (editFilesToMeetRequirements e r f tr) = tr @ evs"
  using editFiles_first [of e r f tr] by blast

lemma editFiles_new:
  assumes "\<And>r f. \<not> P (EditFilesToMeetRequirements r f)" "\<And>a b. \<not> P (WriteFile a b)"
    "\<And>a. \<not> P (Mkdir a)" "\<And>a. \<not> P (WriteFileSync a)" "\<And>a. \<not> P (ExecCommand a)"
  shows "\<exists>evs. snd (editFilesToMeetRequirements e r f tr) = tr @ evs \<and> filter P evs = []"
proof -
  obtain evs where evs: "snd (editFilesToMeetRequirements e r f tr) = tr @ evs"
    using editFiles_append by blast
  have "filter P (tr @ evs) = filter P tr"
    using editFiles_filter [of P e r f tr, OF assms] evs by simp
  then have "filter P evs = []" by simp
  with evs show ?thesis by blast
qed

lemma runStaticAnalysis_snd:
  "\<exists>evs. snd (runStaticAnalysis e p tr) = tr @ RunStaticAnalysis # evs
     \<and> filter analysisOrCommit evs = []"
  by (simp add: runStaticAnalysis_def Let_def)

lemma extractFilenames_snd:
  "\<exists>evs. snd (extractFilenames e summary tr) = tr @ evs \<and> filter analysisOrCommit evs = []"
  by (simp add: extractFilenames_def Let_def)

lemma commitCalls_projection: "commitCalls tr = length (filter isCommit (filter analysisOrCommit tr))"
proof -
  have "\<And>ev. (analysisOrCommit ev \<and> isCommit ev) = isCommit ev"
    by (case_tac ev) simp_all
  then show ?thesis by (simp add: commitCalls_def)
qed

lemma staticAnalysisRuns_projection:
  "staticAnalysisRuns tr = length (filter (\<lambda>ev. ev = RunStaticAnalysis) (filter analysisOrCommit tr))"
proof -
  have "\<And>ev. (analysisOrCommit ev \<and> ev = RunStaticAnalysis) = (ev = RunStaticAnalysis)"
    by (case_tac ev) simp_all
  then show ?thesis by (simp add: staticAnalysisRuns_def)
qed

lemma commitOutcomesFrom_append:
  "commitOutcomesFrom e past (xs @ ys) =
     commitOutcomesFrom e past xs @ commitOutcomesFrom e (past @ xs) ys"
  by (induction xs arbitrary: past) simp_all

lemma commitOutcomesFrom_none:
  "filter isCommit xs = [] \<Longrightarrow> commitOutcomesFrom e past xs = []"
proof (induction xs arbitrary: past)
  case Nil
  show ?case by simp
next
  case (Cons ev rest)
  have "\<not> isCommit ev" "filter isCommit rest = []"
    using Cons.prems by (auto split: if_splits)
  then show ?case using Cons.IH by simp
qed

lemma no_commit: "filter analysisOrCommit xs = [] \<Longrightarrow> filter isCommit xs = []"
proof -
  assume a: "filter analysisOrCommit xs = []"
  have "\<And>ev. isCommit ev \<Longrightarrow> analysisOrCommit ev" by (case_tac ev) simp_all
  with a show ?thesis by (auto simp: filter_empty_conv)
qed

lemma addAllTrackedAndCommit_eq:
  "addAllTrackedAndCommit e m tr =
     (case addAllTrackedAndCommitError e (tr @ [AddAllTrackedAndCommit m]) of
        None \<Rightarrow> Inr () | Some x \<Rightarrow> Inl x,
      tr @ [AddAllTrackedAndCommit m])"
  by (simp add: addAllTrackedAndCommit_def Let_def split: option.splits)

lemma repairStaticAnalysis_snd:
  "\<exists>evs. snd (repairStaticAnalysis e p c tr) = tr @ evs \<and> filter analysisOrCommit evs = []"
proof -
  obtain files tr1 where ex: "extractFilenames e (extractSummary c) tr = (files, tr1)"
    by fastforce
  obtain evs1 where evs1: "tr1 = tr @ evs1" "filter analysisOrCommit evs1 = []"
    using extractFilenames_snd [of e "extractSummary c" tr] ex by auto
  obtain evs2 where evs2:
    "snd (editFilesToMeetRequirements e (staticAnalysisFixRequirements p c) (map Some files) tr1)
       = tr1 @ evs2" "filter analysisOrCommit evs2 = []"
    using editFiles_new [of analysisOrCommit e "staticAnalysisFixRequirements p c"
        "map Some files" tr1] by auto
  have "snd (repairStaticAnalysis e p c tr) = tr @ (evs1 @ evs2)"
    using ex evs1 evs2 by (simp add: repairStaticAnalysis_def)
  moreover have "filter analysisOrCommit (evs1 @ evs2) = []" using evs1 evs2 by simp
  ultimately show ?thesis by blast
qed

text \<open>One round of the loop, by what its analysis and its commits do.\<close>

lemma staticAnalysisLoop_round:
  assumes "i < STATIC_ANALYSIS_MAX_ATTEMPTS"
  obtains
    (break) evs where
      "fst (runStaticAnalysis e p tr) = Inr ()"
      "addAllTrackedAndCommitError e
         (snd (runStaticAnalysis e p tr) @ [AddAllTrackedAndCommit commitMessage]) = None"
      "staticAnalysisLoop e p c i tr = (Inr (), tr @ evs)"
      "filter analysisOrCommit evs = [RunStaticAnalysis, AddAllTrackedAndCommit commitMessage]"
      "commitOutcomesFrom e tr evs = [None]"
  | (rejected) evs m where
      "staticAnalysisLoop e p c i tr = (Inl m, tr @ evs)"
      "fst (runStaticAnalysis e p tr) = Inr ()
         \<and> addAllTrackedAndCommitError e
             (snd (runStaticAnalysis e p tr) @ [AddAllTrackedAndCommit commitMessage]) \<noteq> None
         \<and> filter analysisOrCommit evs =
             [RunStaticAnalysis, AddAllTrackedAndCommit commitMessage,
              AddAllTrackedAndCommit commitMessage]
       \<or> fst (runStaticAnalysis e p tr) \<noteq> Inr ()
         \<and> filter analysisOrCommit evs =
             [RunStaticAnalysis, AddAllTrackedAndCommit commitMessage]"
      "\<not> list_all (\<lambda>k. k = None) (commitOutcomesFrom e tr evs)"
  | (caught) evs where
      "fst (runStaticAnalysis e p tr) = Inr ()
         \<and> addAllTrackedAndCommitError e
             (snd (runStaticAnalysis e p tr) @ [AddAllTrackedAndCommit commitMessage]) \<noteq> None
         \<and> filter analysisOrCommit evs =
             [RunStaticAnalysis, AddAllTrackedAndCommit commitMessage,
              AddAllTrackedAndCommit commitMessage]
         \<and> \<not> list_all (\<lambda>k. k = None) (commitOutcomesFrom e tr evs)
       \<or> fst (runStaticAnalysis e p tr) \<noteq> Inr ()
         \<and> filter analysisOrCommit evs =
             [RunStaticAnalysis, AddAllTrackedAndCommit commitMessage]
         \<and> commitOutcomesFrom e tr evs = [None]
         \<and> tr @ evs = snd (runStaticAnalysis e p tr) @ [AddAllTrackedAndCommit commitMessage]"
      "staticAnalysisLoop e p c i tr =
         (if i = STATIC_ANALYSIS_MAX_ATTEMPTS - 1
          then staticAnalysisLoop e p c (i + 1) (tr @ evs)
          else (case repairStaticAnalysis e p c (tr @ evs) of
                  (Inl m, trr) \<Rightarrow> (Inl m, trr)
                | (Inr u, trr) \<Rightarrow> staticAnalysisLoop e p c (i + 1) trr))"
proof -
  let ?C = "AddAllTrackedAndCommit commitMessage"
  obtain ra tra where sa: "runStaticAnalysis e p tr = (ra, tra)" by fastforce
  obtain evsA where evsA: "tra = tr @ RunStaticAnalysis # evsA" "filter analysisOrCommit evsA = []"
    using runStaticAnalysis_snd [of e p tr] sa by auto
  have kA: "commitOutcomesFrom e tr (RunStaticAnalysis # evsA) = []"
    using no_commit [OF evsA(2)] by (simp add: commitOutcomesFrom_none)
  have k1: "commitOutcomesFrom e tr (RunStaticAnalysis # evsA @ [?C]) =
      [addAllTrackedAndCommitError e (tra @ [?C])]"
    using commitOutcomesFrom_append [of e tr "RunStaticAnalysis # evsA" "[?C]"] kA evsA(1)
    by simp
  have k2: "commitOutcomesFrom e tr (RunStaticAnalysis # evsA @ [?C, ?C]) =
      [addAllTrackedAndCommitError e (tra @ [?C]), addAllTrackedAndCommitError e (tra @ [?C, ?C])]"
    using commitOutcomesFrom_append [of e tr "RunStaticAnalysis # evsA" "[?C, ?C]"] kA evsA(1)
    by simp
  have loop: "staticAnalysisLoop e p c i tr =
      (case staticAnalysisTry e p tr of
         (Inr u, tr1) \<Rightarrow> (Inr (), tr1)
       | (Inl m, tr1) \<Rightarrow>
           (case staticAnalysisCatch e p c i tr1 of
              (Inl m1, tr2) \<Rightarrow> (Inl m1, tr2)
            | (Inr u, tr2) \<Rightarrow> staticAnalysisLoop e p c (i + 1) tr2))"
    using assms by (simp add: staticAnalysisLoop.simps [of e p c i tr])
  have catch_ok: "(case staticAnalysisCatch e p c i t of
              (Inl m1, tr2) \<Rightarrow> (Inl m1, tr2)
            | (Inr u, tr2) \<Rightarrow> staticAnalysisLoop e p c (i + 1) tr2) =
         (if i = STATIC_ANALYSIS_MAX_ATTEMPTS - 1
          then staticAnalysisLoop e p c (i + 1) (t @ [?C])
          else (case repairStaticAnalysis e p c (t @ [?C]) of
                  (Inl m, trr) \<Rightarrow> (Inl m, trr)
                | (Inr u, trr) \<Rightarrow> staticAnalysisLoop e p c (i + 1) trr))"
    if "addAllTrackedAndCommitError e (t @ [?C]) = None" for t
    using that
    by (simp add: staticAnalysisCatch_def addAllTrackedAndCommit_eq split: prod.splits sum.splits)
  have catch_bad: "(case staticAnalysisCatch e p c i t of
              (Inl m1, tr2) \<Rightarrow> (Inl m1, tr2)
            | (Inr u, tr2) \<Rightarrow> staticAnalysisLoop e p c (i + 1) tr2) = (Inl m, t @ [?C])"
    if "addAllTrackedAndCommitError e (t @ [?C]) = Some m" for t m
    using that by (simp add: staticAnalysisCatch_def addAllTrackedAndCommit_eq)
  show ?thesis
  proof (cases ra)
    case (Inr u)
    then have ra: "fst (runStaticAnalysis e p tr) = Inr ()" using sa by simp
    have attempt: "staticAnalysisTry e p tr =
        (case addAllTrackedAndCommitError e (tra @ [?C]) of None \<Rightarrow> Inr () | Some x \<Rightarrow> Inl x,
         tra @ [?C])"
      using sa Inr by (simp add: staticAnalysisTry_def addAllTrackedAndCommit_eq)
    show ?thesis
    proof (cases "addAllTrackedAndCommitError e (tra @ [?C])")
      case None
      show ?thesis
      proof (rule break [of "RunStaticAnalysis # evsA @ [?C]"])
        show "fst (runStaticAnalysis e p tr) = Inr ()" by (rule ra)
        show "addAllTrackedAndCommitError e (snd (runStaticAnalysis e p tr) @ [?C]) = None"
          using sa None by simp
        show "staticAnalysisLoop e p c i tr = (Inr (), tr @ RunStaticAnalysis # evsA @ [?C])"
          using loop attempt None evsA(1) by simp
        show "filter analysisOrCommit (RunStaticAnalysis # evsA @ [?C]) = [RunStaticAnalysis, ?C]"
          using evsA(2) by simp
        show "commitOutcomesFrom e tr (RunStaticAnalysis # evsA @ [?C]) = [None]"
          using k1 None by simp
      qed
    next
      case (Some m)
      then have first: "addAllTrackedAndCommitError e (snd (runStaticAnalysis e p tr) @ [?C]) \<noteq> None"
        using sa by simp
      have loop1: "staticAnalysisLoop e p c i tr =
          (case staticAnalysisCatch e p c i (tra @ [?C]) of
              (Inl m1, tr2) \<Rightarrow> (Inl m1, tr2)
            | (Inr u, tr2) \<Rightarrow> staticAnalysisLoop e p c (i + 1) tr2)"
        using loop attempt Some by simp
      have proj: "filter analysisOrCommit (RunStaticAnalysis # evsA @ [?C, ?C]) =
          [RunStaticAnalysis, ?C, ?C]"
        using evsA(2) by simp
      have bad: "\<not> list_all (\<lambda>k. k = None)
          (commitOutcomesFrom e tr (RunStaticAnalysis # evsA @ [?C, ?C]))"
        using k2 Some by simp
      have tr2: "(tra @ [?C]) @ [?C] = tr @ RunStaticAnalysis # evsA @ [?C, ?C]"
        using evsA(1) by simp
      show ?thesis
      proof (cases "addAllTrackedAndCommitError e ((tra @ [?C]) @ [?C])")
        case None
        show ?thesis
        proof (rule caught [of "RunStaticAnalysis # evsA @ [?C, ?C]"])
          show "staticAnalysisLoop e p c i tr =
             (if i = STATIC_ANALYSIS_MAX_ATTEMPTS - 1
              then staticAnalysisLoop e p c (i + 1) (tr @ RunStaticAnalysis # evsA @ [?C, ?C])
              else (case repairStaticAnalysis e p c (tr @ RunStaticAnalysis # evsA @ [?C, ?C]) of
                      (Inl m, trr) \<Rightarrow> (Inl m, trr)
                    | (Inr u, trr) \<Rightarrow> staticAnalysisLoop e p c (i + 1) trr))"
            using loop1 catch_ok [OF None] by (simp only: tr2)
        qed (use ra first proj bad in simp)
      next
        case (Some m2)
        show ?thesis
        proof (rule rejected [of m2 "RunStaticAnalysis # evsA @ [?C, ?C]"])
          show "staticAnalysisLoop e p c i tr = (Inl m2, tr @ RunStaticAnalysis # evsA @ [?C, ?C])"
            using loop1 catch_bad [OF Some] by (simp only: tr2)
        qed (use ra first proj bad in simp_all)
      qed
    qed
  next
    case (Inl m)
    then have ra: "fst (runStaticAnalysis e p tr) \<noteq> Inr ()" using sa by simp
    have loop1: "staticAnalysisLoop e p c i tr =
        (case staticAnalysisCatch e p c i tra of
            (Inl m1, tr2) \<Rightarrow> (Inl m1, tr2)
          | (Inr u, tr2) \<Rightarrow> staticAnalysisLoop e p c (i + 1) tr2)"
      using loop sa Inl by (simp add: staticAnalysisTry_def)
    have proj: "filter analysisOrCommit (RunStaticAnalysis # evsA @ [?C]) = [RunStaticAnalysis, ?C]"
      using evsA(2) by simp
    have tr2: "tra @ [?C] = tr @ RunStaticAnalysis # evsA @ [?C]"
      using evsA(1) by simp
    show ?thesis
    proof (cases "addAllTrackedAndCommitError e (tra @ [?C])")
      case None
      show ?thesis
      proof (rule caught [of "RunStaticAnalysis # evsA @ [?C]"])
        show "staticAnalysisLoop e p c i tr =
           (if i = STATIC_ANALYSIS_MAX_ATTEMPTS - 1
            then staticAnalysisLoop e p c (i + 1) (tr @ RunStaticAnalysis # evsA @ [?C])
            else (case repairStaticAnalysis e p c (tr @ RunStaticAnalysis # evsA @ [?C]) of
                    (Inl m, trr) \<Rightarrow> (Inl m, trr)
                  | (Inr u, trr) \<Rightarrow> staticAnalysisLoop e p c (i + 1) trr))"
          using loop1 catch_ok [OF None] by (simp only: tr2)
        show "fst (runStaticAnalysis e p tr) = Inr ()
           \<and> addAllTrackedAndCommitError e (snd (runStaticAnalysis e p tr) @ [?C]) \<noteq> None
           \<and> filter analysisOrCommit (RunStaticAnalysis # evsA @ [?C]) =
               [RunStaticAnalysis, ?C, ?C]
           \<and> \<not> list_all (\<lambda>k. k = None)
               (commitOutcomesFrom e tr (RunStaticAnalysis # evsA @ [?C]))
         \<or> fst (runStaticAnalysis e p tr) \<noteq> Inr ()
           \<and> filter analysisOrCommit (RunStaticAnalysis # evsA @ [?C]) = [RunStaticAnalysis, ?C]
           \<and> commitOutcomesFrom e tr (RunStaticAnalysis # evsA @ [?C]) = [None]
           \<and> tr @ RunStaticAnalysis # evsA @ [?C] = snd (runStaticAnalysis e p tr) @ [?C]"
          using ra proj k1 None sa tr2 by simp
      qed
    next
      case (Some m2)
      show ?thesis
      proof (rule rejected [of m2 "RunStaticAnalysis # evsA @ [?C]"])
        show "staticAnalysisLoop e p c i tr = (Inl m2, tr @ RunStaticAnalysis # evsA @ [?C])"
          using loop1 catch_bad [OF Some] by (simp only: tr2)
        show "\<not> list_all (\<lambda>k. k = None) (commitOutcomesFrom e tr (RunStaticAnalysis # evsA @ [?C]))"
          using k1 Some by simp
      qed (use ra proj in simp)
    qed
  qed
qed

lemma staticAnalysisLoop_second_round:
  obtains r evs where
    "staticAnalysisLoop e p c (Suc 0) t = (r, t @ evs)"
    "filter analysisOrCommit evs = [RunStaticAnalysis, AddAllTrackedAndCommit commitMessage]
     \<or> filter analysisOrCommit evs =
         [RunStaticAnalysis, AddAllTrackedAndCommit commitMessage,
          AddAllTrackedAndCommit commitMessage]"
    "list_all (\<lambda>k. k = None) (commitOutcomesFrom e t evs) \<Longrightarrow>
       filter analysisOrCommit evs = [RunStaticAnalysis, AddAllTrackedAndCommit commitMessage]
       \<and> r = Inr ()"
proof -
  have bound: "Suc 0 < STATIC_ANALYSIS_MAX_ATTEMPTS"
    by (simp add: STATIC_ANALYSIS_MAX_ATTEMPTS_def)
  have stop: "staticAnalysisLoop e p c (Suc 0 + 1) t' = (Inr (), t')" for t'
    by (simp add: staticAnalysisLoop.simps [of e p c "Suc (Suc 0)" t']
        STATIC_ANALYSIS_MAX_ATTEMPTS_def)
  from bound show ?thesis
  proof (cases rule: staticAnalysisLoop_round [of "Suc 0" e p t c])
    case (break evs)
    show ?thesis
      by (rule that [of "Inr ()" evs]) (use break in simp_all)
  next
    case (rejected evs m)
    show ?thesis
      by (rule that [of "Inl m" evs]) (use rejected in auto)
  next
    case (caught evs)
    have "staticAnalysisLoop e p c (Suc 0) t = (Inr (), t @ evs)"
      using caught(2) stop [of "t @ evs"] by (simp add: STATIC_ANALYSIS_MAX_ATTEMPTS_def)
    then show ?thesis
      by (rule that [of "Inr ()" evs]) (use caught(1) in auto)
  qed
qed

text \<open>A whole run of the loop, by the outcome of its first round and of the repair.\<close>

lemma staticAnalysisLoop_run:
  obtains
    (passes)
      "fst (runStaticAnalysis e p tr) = Inr ()" "firstCommitError e p tr = None"
      "fst (staticAnalysisLoop e p c 0 tr) = Inr ()"
      "filter analysisOrCommit (staticAnalysisLoopEvents e p c tr) =
         [RunStaticAnalysis, AddAllTrackedAndCommit commitMessage]"
      "commitsSucceed e tr (staticAnalysisLoopEvents e p c tr)"
  | (commit_rejected) rest where
      "fst (runStaticAnalysis e p tr) = Inr ()" "firstCommitError e p tr \<noteq> None"
      "filter analysisOrCommit (staticAnalysisLoopEvents e p c tr) =
         [RunStaticAnalysis, AddAllTrackedAndCommit commitMessage,
          AddAllTrackedAndCommit commitMessage] @ rest"
      "rest = [] \<or> rest = [RunStaticAnalysis, AddAllTrackedAndCommit commitMessage]
       \<or> rest = [RunStaticAnalysis, AddAllTrackedAndCommit commitMessage,
                  AddAllTrackedAndCommit commitMessage]"
      "\<not> commitsSucceed e tr (staticAnalysisLoopEvents e p c tr)"
  | (catch_rejected)
      "fst (runStaticAnalysis e p tr) \<noteq> Inr ()"
      "filter analysisOrCommit (staticAnalysisLoopEvents e p c tr) =
         [RunStaticAnalysis, AddAllTrackedAndCommit commitMessage]"
      "\<not> commitsSucceed e tr (staticAnalysisLoopEvents e p c tr)"
  | (editor_throws)
      "fst (runStaticAnalysis e p tr) \<noteq> Inr ()"
      "fst (firstRepair e p c tr) \<noteq> Inr ()"
      "fst (staticAnalysisLoop e p c 0 tr) = fst (firstRepair e p c tr)"
      "filter analysisOrCommit (staticAnalysisLoopEvents e p c tr) =
         [RunStaticAnalysis, AddAllTrackedAndCommit commitMessage]"
      "commitsSucceed e tr (staticAnalysisLoopEvents e p c tr)"
  | (second_round)
      "fst (runStaticAnalysis e p tr) \<noteq> Inr ()"
      "fst (firstRepair e p c tr) = Inr ()"
      "fst (staticAnalysisLoop e p c 0 tr) = Inr ()"
      "filter analysisOrCommit (staticAnalysisLoopEvents e p c tr) =
         [RunStaticAnalysis, AddAllTrackedAndCommit commitMessage,
          RunStaticAnalysis, AddAllTrackedAndCommit commitMessage]"
      "commitsSucceed e tr (staticAnalysisLoopEvents e p c tr)"
  | (second_round_rejected) rest where
      "fst (runStaticAnalysis e p tr) \<noteq> Inr ()"
      "filter analysisOrCommit (staticAnalysisLoopEvents e p c tr) =
         [RunStaticAnalysis, AddAllTrackedAndCommit commitMessage] @ rest"
      "rest = [RunStaticAnalysis, AddAllTrackedAndCommit commitMessage]
       \<or> rest = [RunStaticAnalysis, AddAllTrackedAndCommit commitMessage,
                  AddAllTrackedAndCommit commitMessage]"
      "\<not> commitsSucceed e tr (staticAnalysisLoopEvents e p c tr)"
proof -
  let ?C = "AddAllTrackedAndCommit commitMessage"
  have bound: "0 < STATIC_ANALYSIS_MAX_ATTEMPTS"
    by (simp add: STATIC_ANALYSIS_MAX_ATTEMPTS_def)
  from bound show ?thesis
  proof (cases rule: staticAnalysisLoop_round [of 0 e p tr c])
    case (break evs)
    show ?thesis
      by (rule passes)
        (use break in \<open>simp_all add: staticAnalysisLoopEvents_def commitsSucceed_def
           firstCommitError_def\<close>)
  next
    case (rejected evs m)
    have ev: "staticAnalysisLoopEvents e p c tr = evs"
      using rejected(1) by (simp add: staticAnalysisLoopEvents_def)
    from rejected(2) show ?thesis
    proof (elim disjE conjE)
      assume "fst (runStaticAnalysis e p tr) = Inr ()"
        "addAllTrackedAndCommitError e (snd (runStaticAnalysis e p tr) @ [?C]) \<noteq> None"
        "filter analysisOrCommit evs = [RunStaticAnalysis, ?C, ?C]"
      then show ?thesis
        using rejected(3) ev
        by (intro commit_rejected [of "[]"]) (simp_all add: commitsSucceed_def firstCommitError_def)
    next
      assume "fst (runStaticAnalysis e p tr) \<noteq> Inr ()"
        "filter analysisOrCommit evs = [RunStaticAnalysis, ?C]"
      then show ?thesis
        using rejected(3) ev
        by (intro catch_rejected) (simp_all add: commitsSucceed_def)
    qed
  next
    case (caught evs)
    obtain rr trr where rep: "repairStaticAnalysis e p c (tr @ evs) = (rr, trr)" by fastforce
    obtain evsR where evsR: "trr = tr @ evs @ evsR" "filter analysisOrCommit evsR = []"
      using repairStaticAnalysis_snd [of e p c "tr @ evs"] rep by auto
    have kR: "commitOutcomesFrom e tr (evs @ evsR) = commitOutcomesFrom e tr evs"
      using no_commit [OF evsR(2)]
      by (simp add: commitOutcomesFrom_append commitOutcomesFrom_none)
    have loop: "staticAnalysisLoop e p c 0 tr =
        (case rr of Inl m \<Rightarrow> (Inl m, trr) | Inr u \<Rightarrow> staticAnalysisLoop e p c (Suc 0) trr)"
      using caught(2) rep by (simp add: STATIC_ANALYSIS_MAX_ATTEMPTS_def split: sum.splits)
    show ?thesis
    proof (cases rr)
      case (Inl m)
      have ev: "staticAnalysisLoopEvents e p c tr = evs @ evsR"
        using loop Inl evsR(1) by (simp add: staticAnalysisLoopEvents_def)
      have res: "fst (staticAnalysisLoop e p c 0 tr) = Inl m" using loop Inl by simp
      from caught(1) show ?thesis
      proof (elim disjE conjE)
        assume "fst (runStaticAnalysis e p tr) = Inr ()"
          "addAllTrackedAndCommitError e (snd (runStaticAnalysis e p tr) @ [?C]) \<noteq> None"
          "filter analysisOrCommit evs = [RunStaticAnalysis, ?C, ?C]"
          "\<not> list_all (\<lambda>k. k = None) (commitOutcomesFrom e tr evs)"
        then show ?thesis
          using ev kR evsR(2)
          by (intro commit_rejected [of "[]"])
            (simp_all add: commitsSucceed_def firstCommitError_def)
      next
        assume a: "fst (runStaticAnalysis e p tr) \<noteq> Inr ()"
          "filter analysisOrCommit evs = [RunStaticAnalysis, ?C]"
          "commitOutcomesFrom e tr evs = [None]"
          "tr @ evs = snd (runStaticAnalysis e p tr) @ [?C]"
        have fr: "firstRepair e p c tr = (Inl m, trr)"
          using rep Inl a(4) by (simp add: firstRepair_def)
        show ?thesis
          using a(1,2,3) ev kR evsR(2) res fr
          by (intro editor_throws) (simp_all add: commitsSucceed_def)
      qed
    next
      case (Inr u)
      obtain r evs2 where second:
        "staticAnalysisLoop e p c (Suc 0) trr = (r, trr @ evs2)"
        "filter analysisOrCommit evs2 = [RunStaticAnalysis, ?C]
         \<or> filter analysisOrCommit evs2 = [RunStaticAnalysis, ?C, ?C]"
        "list_all (\<lambda>k. k = None) (commitOutcomesFrom e trr evs2) \<Longrightarrow>
           filter analysisOrCommit evs2 = [RunStaticAnalysis, ?C] \<and> r = Inr ()"
        by (rule staticAnalysisLoop_second_round [of e p c trr]) blast
      have ev: "staticAnalysisLoopEvents e p c tr = evs @ evsR @ evs2"
        using loop Inr evsR(1) second(1) by (simp add: staticAnalysisLoopEvents_def)
      have res: "fst (staticAnalysisLoop e p c 0 tr) = r" using loop Inr second(1) by simp
      have k: "commitOutcomesFrom e tr (evs @ evsR @ evs2) =
          commitOutcomesFrom e tr evs @ commitOutcomesFrom e trr evs2"
        using commitOutcomesFrom_append [of e tr "evs @ evsR" evs2] kR evsR(1) by simp
      have proj: "filter analysisOrCommit (evs @ evsR @ evs2) =
          filter analysisOrCommit evs @ filter analysisOrCommit evs2"
        using evsR(2) by simp
      from caught(1) show ?thesis
      proof (elim disjE conjE)
        assume a: "fst (runStaticAnalysis e p tr) = Inr ()"
          "addAllTrackedAndCommitError e (snd (runStaticAnalysis e p tr) @ [?C]) \<noteq> None"
          "filter analysisOrCommit evs = [RunStaticAnalysis, ?C, ?C]"
          "\<not> list_all (\<lambda>k. k = None) (commitOutcomesFrom e tr evs)"
        show ?thesis
        proof (rule commit_rejected [of "filter analysisOrCommit evs2"])
          show "filter analysisOrCommit (staticAnalysisLoopEvents e p c tr) =
              [RunStaticAnalysis, ?C, ?C] @ filter analysisOrCommit evs2"
            using ev proj a(3) by simp
          show "\<not> commitsSucceed e tr (staticAnalysisLoopEvents e p c tr)"
            using ev k a(4) by (simp add: commitsSucceed_def)
        qed (use a second(2) in \<open>simp_all add: firstCommitError_def\<close>)
      next
        assume a: "fst (runStaticAnalysis e p tr) \<noteq> Inr ()"
          "filter analysisOrCommit evs = [RunStaticAnalysis, ?C]"
          "commitOutcomesFrom e tr evs = [None]"
          "tr @ evs = snd (runStaticAnalysis e p tr) @ [?C]"
        have fr: "fst (firstRepair e p c tr) = Inr ()"
          using rep Inr a(4) by (simp add: firstRepair_def)
        show ?thesis
        proof (cases "list_all (\<lambda>k. k = None) (commitOutcomesFrom e trr evs2)")
          case True
          then have s: "filter analysisOrCommit evs2 = [RunStaticAnalysis, ?C]" "r = Inr ()"
            using second(3) by simp_all
          show ?thesis
          proof (rule second_round)
            show "filter analysisOrCommit (staticAnalysisLoopEvents e p c tr) =
                [RunStaticAnalysis, ?C, RunStaticAnalysis, ?C]"
              using ev proj a(2) s(1) by simp
            show "commitsSucceed e tr (staticAnalysisLoopEvents e p c tr)"
              using ev k a(3) True by (simp add: commitsSucceed_def)
          qed (use a(1) fr res s(2) in simp_all)
        next
          case False
          show ?thesis
          proof (rule second_round_rejected [of "filter analysisOrCommit evs2"])
            show "filter analysisOrCommit (staticAnalysisLoopEvents e p c tr) =
                [RunStaticAnalysis, ?C] @ filter analysisOrCommit evs2"
              using ev proj a(2) by simp
            show "\<not> commitsSucceed e tr (staticAnalysisLoopEvents e p c tr)"
              using ev k a(3) False by (simp add: commitsSucceed_def)
          qed (use a(1) second(2) in simp_all)
        qed
      qed
    qed
  qed
qed

text \<open>
  Claim C4, as amended. In every run of the static-analysis loop each analysis run is
  followed by a commit, whether the run passed or threw, and by a second commit when the
  first of the two was made after a passing analysis and threw: the analysis runs and
  commits of the loop are one or two rounds, each one run and one or two commits. In a run
  in which no commit throws, each round has exactly one commit, so the number of commits is
  the number of rounds: 1 if the first analysis run passes; 2 if it throws and the editor
  call made after it returns; 1 if it throws and that editor call throws, and then the loop
  throws the editor's error. When the first analysis run passes and the commit after it
  throws, that round has two commits, and the loop has more commits than rounds.
\<close>

theorem static_analysis_commits_after_every_round:
  "(\<exists>first second.
      filter analysisOrCommit (staticAnalysisLoopEvents e p c tr) = first @ second
      \<and> (first = [RunStaticAnalysis, AddAllTrackedAndCommit commitMessage]
         \<or> first = [RunStaticAnalysis, AddAllTrackedAndCommit commitMessage,
                     AddAllTrackedAndCommit commitMessage])
      \<and> (second = []
         \<or> second = [RunStaticAnalysis, AddAllTrackedAndCommit commitMessage]
         \<or> second = [RunStaticAnalysis, AddAllTrackedAndCommit commitMessage,
                      AddAllTrackedAndCommit commitMessage]))
   \<and> (commitsSucceed e tr (staticAnalysisLoopEvents e p c tr) \<longrightarrow>
        (filter analysisOrCommit (staticAnalysisLoopEvents e p c tr) =
           [RunStaticAnalysis, AddAllTrackedAndCommit commitMessage]
         \<or> filter analysisOrCommit (staticAnalysisLoopEvents e p c tr) =
           [RunStaticAnalysis, AddAllTrackedAndCommit commitMessage,
            RunStaticAnalysis, AddAllTrackedAndCommit commitMessage])
        \<and> commitCalls (staticAnalysisLoopEvents e p c tr) =
            staticAnalysisRuns (staticAnalysisLoopEvents e p c tr))
   \<and> (commitsSucceed e tr (staticAnalysisLoopEvents e p c tr)
        \<and> fst (runStaticAnalysis e p tr) = Inr () \<longrightarrow>
        commitCalls (staticAnalysisLoopEvents e p c tr) = 1
        \<and> fst (staticAnalysisLoop e p c 0 tr) = Inr ())
   \<and> (commitsSucceed e tr (staticAnalysisLoopEvents e p c tr)
        \<and> fst (runStaticAnalysis e p tr) \<noteq> Inr ()
        \<and> fst (firstRepair e p c tr) = Inr () \<longrightarrow>
        commitCalls (staticAnalysisLoopEvents e p c tr) = 2
        \<and> fst (staticAnalysisLoop e p c 0 tr) = Inr ())
   \<and> (commitsSucceed e tr (staticAnalysisLoopEvents e p c tr)
        \<and> fst (runStaticAnalysis e p tr) \<noteq> Inr ()
        \<and> fst (firstRepair e p c tr) \<noteq> Inr () \<longrightarrow>
        commitCalls (staticAnalysisLoopEvents e p c tr) = 1
        \<and> fst (staticAnalysisLoop e p c 0 tr) = fst (firstRepair e p c tr))
   \<and> (fst (runStaticAnalysis e p tr) = Inr () \<and> firstCommitError e p tr \<noteq> None \<longrightarrow>
        take 3 (filter analysisOrCommit (staticAnalysisLoopEvents e p c tr)) =
          [RunStaticAnalysis, AddAllTrackedAndCommit commitMessage,
           AddAllTrackedAndCommit commitMessage]
        \<and> staticAnalysisRuns (staticAnalysisLoopEvents e p c tr) <
            commitCalls (staticAnalysisLoopEvents e p c tr))"
proof -
  let ?ev = "staticAnalysisLoopEvents e p c tr"
  let ?C = "AddAllTrackedAndCommit commitMessage"
  note counts = commitCalls_projection [of ?ev] staticAnalysisRuns_projection [of ?ev]
  show ?thesis
  proof (cases rule: staticAnalysisLoop_run [of e p tr c])
    case passes
    have shape: "\<exists>first second. [RunStaticAnalysis, ?C] = first @ second
        \<and> (first = [RunStaticAnalysis, ?C] \<or> first = [RunStaticAnalysis, ?C, ?C])
        \<and> (second = [] \<or> second = [RunStaticAnalysis, ?C]
           \<or> second = [RunStaticAnalysis, ?C, ?C])"
      by (rule exI [of _ "[RunStaticAnalysis, ?C]"], rule exI [of _ "[]"]) simp
    show ?thesis
      unfolding counts passes(4) using shape passes(1,2,3,5) by simp
  next
    case (commit_rejected rest)
    have shape: "\<exists>first second. [RunStaticAnalysis, ?C, ?C] @ rest = first @ second
        \<and> (first = [RunStaticAnalysis, ?C] \<or> first = [RunStaticAnalysis, ?C, ?C])
        \<and> (second = [] \<or> second = [RunStaticAnalysis, ?C]
           \<or> second = [RunStaticAnalysis, ?C, ?C])"
      by (rule exI [of _ "[RunStaticAnalysis, ?C, ?C]"], rule exI [of _ rest])
        (use commit_rejected(4) in simp)
    have more: "length (filter (\<lambda>ev. ev = RunStaticAnalysis) ([RunStaticAnalysis, ?C, ?C] @ rest))
        < length (filter isCommit ([RunStaticAnalysis, ?C, ?C] @ rest))"
      using commit_rejected(4) by auto
    show ?thesis
      unfolding counts commit_rejected(3) using shape more commit_rejected(1,2,5) by simp
  next
    case catch_rejected
    have shape: "\<exists>first second. [RunStaticAnalysis, ?C] = first @ second
        \<and> (first = [RunStaticAnalysis, ?C] \<or> first = [RunStaticAnalysis, ?C, ?C])
        \<and> (second = [] \<or> second = [RunStaticAnalysis, ?C]
           \<or> second = [RunStaticAnalysis, ?C, ?C])"
      by (rule exI [of _ "[RunStaticAnalysis, ?C]"], rule exI [of _ "[]"]) simp
    show ?thesis
      unfolding counts catch_rejected(2) using shape catch_rejected(1,3) by simp
  next
    case editor_throws
    have shape: "\<exists>first second. [RunStaticAnalysis, ?C] = first @ second
        \<and> (first = [RunStaticAnalysis, ?C] \<or> first = [RunStaticAnalysis, ?C, ?C])
        \<and> (second = [] \<or> second = [RunStaticAnalysis, ?C]
           \<or> second = [RunStaticAnalysis, ?C, ?C])"
      by (rule exI [of _ "[RunStaticAnalysis, ?C]"], rule exI [of _ "[]"]) simp
    show ?thesis
      unfolding counts editor_throws(4) using shape editor_throws(1,2,3,5) by simp
  next
    case second_round
    have shape: "\<exists>first second. [RunStaticAnalysis, ?C, RunStaticAnalysis, ?C] = first @ second
        \<and> (first = [RunStaticAnalysis, ?C] \<or> first = [RunStaticAnalysis, ?C, ?C])
        \<and> (second = [] \<or> second = [RunStaticAnalysis, ?C]
           \<or> second = [RunStaticAnalysis, ?C, ?C])"
      by (rule exI [of _ "[RunStaticAnalysis, ?C]"], rule exI [of _ "[RunStaticAnalysis, ?C]"])
        simp
    show ?thesis
      unfolding counts second_round(4) using shape second_round(1,2,3,5) by simp
  next
    case (second_round_rejected rest)
    have shape: "\<exists>first second. [RunStaticAnalysis, ?C] @ rest = first @ second
        \<and> (first = [RunStaticAnalysis, ?C] \<or> first = [RunStaticAnalysis, ?C, ?C])
        \<and> (second = [] \<or> second = [RunStaticAnalysis, ?C]
           \<or> second = [RunStaticAnalysis, ?C, ?C])"
      by (rule exI [of _ "[RunStaticAnalysis, ?C]"], rule exI [of _ rest])
        (use second_round_rejected(3) in simp)
    show ?thesis
      unfolding counts second_round_rejected(2)
      using shape second_round_rejected(1,4) by simp
  qed
qed

text \<open>With every command succeeding the loop commits once; with a failing static-analysis
  command and a working editor it commits twice; with every command failing the editor
  throws and so does the loop; with every commit rejected the first round commits twice.\<close>

theorem static_analysis_commits_after_every_round_witness:
  "commitsSucceed exampleEnv []
     (staticAnalysisLoopEvents exampleEnv exampleProject (Some nullInstallPackages) [])
   \<and> fst (runStaticAnalysis exampleEnv exampleProject []) = Inr ()
   \<and> commitCalls
       (staticAnalysisLoopEvents exampleEnv exampleProject (Some nullInstallPackages) []) = 1
   \<and> commitsSucceed lintFailsEnv []
       (staticAnalysisLoopEvents lintFailsEnv exampleProject (Some nullInstallPackages) [])
   \<and> fst (runStaticAnalysis lintFailsEnv exampleProject []) \<noteq> Inr ()
   \<and> fst (firstRepair lintFailsEnv exampleProject (Some nullInstallPackages) []) = Inr ()
   \<and> commitCalls
       (staticAnalysisLoopEvents lintFailsEnv exampleProject (Some nullInstallPackages) []) = 2
   \<and> commitsSucceed (exitCodeEnv 1) []
       (staticAnalysisLoopEvents (exitCodeEnv 1) exampleProject (Some nullInstallPackages) [])
   \<and> fst (runStaticAnalysis (exitCodeEnv 1) exampleProject []) \<noteq> Inr ()
   \<and> fst (firstRepair (exitCodeEnv 1) exampleProject (Some nullInstallPackages) []) \<noteq> Inr ()
   \<and> fst (staticAnalysisLoop (exitCodeEnv 1) exampleProject (Some nullInstallPackages) 0 []) =
       fst (firstRepair (exitCodeEnv 1) exampleProject (Some nullInstallPackages) [])
   \<and> fst (runStaticAnalysis commitRejectedEnv exampleProject []) = Inr ()
   \<and> firstCommitError commitRejectedEnv exampleProject [] \<noteq> None
   \<and> staticAnalysisRuns
       (staticAnalysisLoopEvents commitRejectedEnv exampleProject (Some nullInstallPackages) [])
     < commitCalls
       (staticAnalysisLoopEvents commitRejectedEnv exampleProject (Some nullInstallPackages) [])"
proof -
  have h1: "commitsSucceed exampleEnv []
      (staticAnalysisLoopEvents exampleEnv exampleProject (Some nullInstallPackages) [])
    \<and> fst (runStaticAnalysis exampleEnv exampleProject []) = Inr ()"
    by code_simp
  have h2: "commitsSucceed lintFailsEnv []
      (staticAnalysisLoopEvents lintFailsEnv exampleProject (Some nullInstallPackages) [])
    \<and> fst (runStaticAnalysis lintFailsEnv exampleProject []) \<noteq> Inr ()
    \<and> fst (firstRepair lintFailsEnv exampleProject (Some nullInstallPackages) []) = Inr ()"
    by code_simp
  have h3: "commitsSucceed (exitCodeEnv 1) []
      (staticAnalysisLoopEvents (exitCodeEnv 1) exampleProject (Some nullInstallPackages) [])
    \<and> fst (runStaticAnalysis (exitCodeEnv 1) exampleProject []) \<noteq> Inr ()
    \<and> fst (firstRepair (exitCodeEnv 1) exampleProject (Some nullInstallPackages) []) \<noteq> Inr ()"
    by code_simp
  have h4: "fst (runStaticAnalysis commitRejectedEnv exampleProject []) = Inr ()
    \<and> firstCommitError commitRejectedEnv exampleProject [] \<noteq> None"
    by code_simp
  have c1: "commitCalls
      (staticAnalysisLoopEvents exampleEnv exampleProject (Some nullInstallPackages) []) = 1"
    using h1 static_analysis_commits_after_every_round
        [where e = exampleEnv and p = exampleProject
          and c = "Some nullInstallPackages" and tr = "[]"]
    by blast
  have c2: "commitCalls
      (staticAnalysisLoopEvents lintFailsEnv exampleProject (Some nullInstallPackages) []) = 2"
    using h2 static_analysis_commits_after_every_round
        [where e = lintFailsEnv and p = exampleProject
          and c = "Some nullInstallPackages" and tr = "[]"]
    by blast
  have c3: "fst (staticAnalysisLoop (exitCodeEnv 1) exampleProject (Some nullInstallPackages) 0 [])
      = fst (firstRepair (exitCodeEnv 1) exampleProject (Some nullInstallPackages) [])"
    using h3 static_analysis_commits_after_every_round
        [where e = "exitCodeEnv 1" and p = exampleProject
          and c = "Some nullInstallPackages" and tr = "[]"]
    by blast
  have c4: "staticAnalysisRuns
       (staticAnalysisLoopEvents commitRejectedEnv exampleProject (Some nullInstallPackages) [])
     < commitCalls
       (staticAnalysisLoopEvents commitRejectedEnv exampleProject (Some nullInstallPackages) [])"
    using h4 static_analysis_commits_after_every_round
        [where e = commitRejectedEnv and p = exampleProject
          and c = "Some nullInstallPackages" and tr = "[]"]
    by blast
  show ?thesis
    using h1 h2 h3 h4 c1 c2 c3 c4 by blast
qed

text \<open>Claim C4 as stated fails: when every command exits with 1, the first round fails,
  the editor call in the \<^verbatim>\<open>catch\<close> throws, and the loop has committed once, not twice.\<close>

theorem editor_throws_single_commit_counterexample:
  "fst (runStaticAnalysis (exitCodeEnv 1) exampleProject []) \<noteq> Inr ()
   \<and> commitCalls
       (snd (staticAnalysisLoop (exitCodeEnv 1) exampleProject (Some nullInstallPackages) 0 []))
     = 1"
  by code_simp

text \<open>
  Claim C5 does not hold of the code. In the run whose static-analysis command fails with
  the output \<^verbatim>\<open>y is unused\<close> and \<^verbatim>\<open>lint failed\<close>, the file names are extracted from,
  and the editor's requirement carries, the value of \<^verbatim>\<open>compileErrorOutput\<close> left by the
  edit-compile loop (the message of the \<^verbatim>\<open>TypeError\<close> of its first round), not the text
  thrown by the static-analysis run.
\<close>

theorem static_analysis_fix_carries_compile_error_output:
  "fst scenarioLint = Inr ()
   \<and> fst (runStaticAnalysis lintFailsEnv exampleProject []) =
       Inl (staticAnalysisOutput exampleProject lintFailure)
   \<and> filter isExtractFilenames (staticAnalysisStage (snd scenarioLint)) =
       [ExtractFilenames (nullInstallPackages @
          ''\<newline>\<newline>Extract the filenames from the compile errors.'')]
   \<and> filter isEditorCall (staticAnalysisStage (snd scenarioLint)) =
       [EditFilesToMeetRequirements
          (''Static analysis command: lint\<newline>'' @ nullInstallPackages @
           ''\<newline>Fix these static analysis errors'') [Some ''a.ts'']]
   \<and> \<not> sublist ''y is unused''
         (''Static analysis command: lint\<newline>'' @ nullInstallPackages @
          ''\<newline>Fix these static analysis errors'')
   \<and> \<not> sublist ''lint failed''
         (''Static analysis command: lint\<newline>'' @ nullInstallPackages @
          ''\<newline>Fix these static analysis errors'')"
  by code_simp

section \<open>The working file set\<close>

text \<open>The working file set after \<open>editThenCompile\<close>, and after the whole loop.\<close>

lemma editThenCompile_files:
  "initialSelectedFiles (fst (snd (editThenCompile e p r files st tr))) =
     (if fst (editFilesToMeetRequirements e r (map Some files) tr) = Inr ()
      then initialSelectedFiles st @
           getFilesAddedInHeadCommit e
             (snd (editFilesToMeetRequirements e r (map Some files) tr) @
              [GetFilesAddedInHeadCommit])
      else initialSelectedFiles st)"
proof -
  obtain res1 tr1 where ed: "editFilesToMeetRequirements e r (map Some files) tr = (res1, tr1)"
    by fastforce
  obtain res3 tr3 where c: "compile e p (tr1 @ [GetFilesAddedInHeadCommit]) = (res3, tr3)"
    by fastforce
  show ?thesis
    using ed c by (cases res1; cases res3) (simp_all add: editThenCompile_def Let_def)
qed

lemma editCompileTry_retry_trace:
  assumes "errorAnalysis st = Some a" "i \<noteq> 0"
  shows "editCompileTry e p spec i st tr =
         editThenCompile e p (retryRequirements spec (compileErrorOutput st))
           (initialSelectedFiles st @ diagnosisFiles a) st
           (case installPackages a of None \<Rightarrow> tr | Some packages \<Rightarrow> installAll p packages tr)"
  using assms
  by (simp add: editCompileTry_def Let_def retryRequirements_def diagnosisFiles_def)

lemma editCompileLoop_round_one:
  "editCompileLoop e p spec 0 (startState fs) tr =
     (case editThenCompile e p (retryRequirements spec (Some nullInstallPackages))
             (fs @ diagnosisFiles (analyzeCompileErrors e
                (tr @ [AnalyzeCompileErrors nullInstallPackages fs])))
             \<lparr>initialSelectedFiles = fs,
              errorAnalysis = Some (analyzeCompileErrors e
                (tr @ [AnalyzeCompileErrors nullInstallPackages fs])),
              compileErrorOutput = Some nullInstallPackages\<rparr>
             (roundOneTrace e p fs tr) of
        (Inr u, st2, tr2) \<Rightarrow> (st2, tr2)
      | (Inl m, st2, tr2) \<Rightarrow> editCompileCatch e m st2 tr2)"
proof -
  let ?tr1 = "tr @ [AnalyzeCompileErrors nullInstallPackages fs]"
  let ?a = "analyzeCompileErrors e ?tr1"
  let ?st1 = "\<lparr>initialSelectedFiles = fs, errorAnalysis = Some ?a,
    compileErrorOutput = Some nullInstallPackages\<rparr>"
  have c: "editCompileCatch e nullInstallPackages (startState fs) tr = (?st1, ?tr1)"
    by (simp add: editCompileCatch_first)
  have loop: "editCompileLoop e p spec 0 (startState fs) tr =
      (case editCompileTry e p spec (Suc 0) ?st1 ?tr1 of
         (Inr u, st2, tr2) \<Rightarrow> (st2, tr2)
       | (Inl m, st2, tr2) \<Rightarrow> editCompileCatch e m st2 tr2)"
    using editCompileLoop_first_round [of "startState fs" e p spec tr] c
    by (simp add: startState_def editCompileLoop_last_round)
  have "editCompileTry e p spec (Suc 0) ?st1 ?tr1 =
      editThenCompile e p (retryRequirements spec (Some nullInstallPackages))
        (fs @ diagnosisFiles ?a) ?st1 (roundOneTrace e p fs tr)"
    using editCompileTry_retry_trace [of ?st1 ?a "Suc 0" e p spec ?tr1]
    by (simp add: roundOneTrace_def)
  with loop show ?thesis by simp
qed

lemma editCompileLoop_files:
  "initialSelectedFiles (fst (editCompileLoop e p spec 0 (startState fs) tr)) =
     (if fst (roundOneEdit e p spec fs tr) = Inr ()
      then fs @ getFilesAddedInHeadCommit e
             (snd (roundOneEdit e p spec fs tr) @ [GetFilesAddedInHeadCommit])
      else fs)"
proof -
  let ?a = "analyzeCompileErrors e (tr @ [AnalyzeCompileErrors nullInstallPackages fs])"
  let ?st1 = "\<lparr>initialSelectedFiles = fs, errorAnalysis = Some ?a,
    compileErrorOutput = Some nullInstallPackages\<rparr>"
  let ?etc = "editThenCompile e p (retryRequirements spec (Some nullInstallPackages))
      (fs @ diagnosisFiles ?a) ?st1 (roundOneTrace e p fs tr)"
  obtain res st2 tr2 where etc: "?etc = (res, st2, tr2)" by (metis prod_cases3)
  have "initialSelectedFiles (fst (editCompileLoop e p spec 0 (startState fs) tr)) =
      initialSelectedFiles st2"
    using etc
    by (cases res) (simp_all add: editCompileLoop_round_one editCompileCatch_def Let_def)
  also have "\<dots> = initialSelectedFiles (fst (snd ?etc))" using etc by simp
  also have "\<dots> = (if fst (roundOneEdit e p spec fs tr) = Inr ()
      then fs @ getFilesAddedInHeadCommit e
             (snd (roundOneEdit e p spec fs tr) @ [GetFilesAddedInHeadCommit])
      else fs)"
    by (simp only: editThenCompile_files roundOneEdit_def) simp
  finally show ?thesis .
qed

text \<open>
  Claim C7, as amended. The working file set \<^verbatim>\<open>initialSelectedFiles\<close> starts as the paths
  of the selected primary files followed by those of the secondary files. The edit-compile
  loop only appends to it, from any round and any state: the list it leaves has the list it
  found as a prefix. It grows when the editor's commit adds files: after an editor call
  that returns, the list is the list before followed by the files
  \<^verbatim>\<open>getFilesAddedInHeadCommit\<close> returns right after that call, and after an editor call
  that throws it is unchanged; so the loop, started as the workflow starts it, leaves the
  selected files followed by the files added by the commit of its one editor call, or the
  selected files alone when that call throws. The files a diagnosis names are not appended
  to it: they are appended to the file list of the one editor call the loop makes.
\<close>

theorem working_file_set_accumulates:
  "fst (fst (selectAndSpecify e requirements p tr0)) =
     map path (primaryFiles (selectFilesToEdit e
       (tr0 @ [SetWorkingDirectory (baseDir p), SelectFilesToEdit requirements]))) @
     map path (secondaryFiles (selectFilesToEdit e
       (tr0 @ [SetWorkingDirectory (baseDir p), SelectFilesToEdit requirements])))
   \<and> prefix (initialSelectedFiles st)
        (initialSelectedFiles (fst (editCompileLoop e p spec i st tr)))
   \<and> (initialSelectedFiles (fst (editCompileLoop e p spec 0 (startState fs) tr)) = fs
       \<or> (\<exists>t. initialSelectedFiles (fst (editCompileLoop e p spec 0 (startState fs) tr)) =
                fs @ getFilesAddedInHeadCommit e t))
   \<and> filter isEditorCall (newEvents tr (snd (editCompileLoop e p spec 0 (startState fs) tr))) =
       [EditFilesToMeetRequirements (retryRequirements spec (Some nullInstallPackages))
          (map Some (fs @ diagnosisFiles (analyzeCompileErrors e
             (tr @ [AnalyzeCompileErrors nullInstallPackages fs]))))]
   \<and> (fst (editFilesToMeetRequirements e r (map Some files) tr) = Inr () \<longrightarrow>
        initialSelectedFiles (fst (snd (editThenCompile e p r files st tr))) =
          initialSelectedFiles st @
          getFilesAddedInHeadCommit e
            (snd (editFilesToMeetRequirements e r (map Some files) tr) @
             [GetFilesAddedInHeadCommit]))
   \<and> (fst (editFilesToMeetRequirements e r (map Some files) tr) \<noteq> Inr () \<longrightarrow>
        initialSelectedFiles (fst (snd (editThenCompile e p r files st tr))) =
          initialSelectedFiles st)
   \<and> (fst (roundOneEdit e p spec fs tr) = Inr () \<longrightarrow>
        initialSelectedFiles (fst (editCompileLoop e p spec 0 (startState fs) tr)) =
          fs @ getFilesAddedInHeadCommit e
                 (snd (roundOneEdit e p spec fs tr) @ [GetFilesAddedInHeadCommit]))
   \<and> (fst (roundOneEdit e p spec fs tr) \<noteq> Inr () \<longrightarrow>
        initialSelectedFiles (fst (editCompileLoop e p spec 0 (startState fs) tr)) = fs)"
proof (intro conjI)
  show "fst (fst (selectAndSpecify e requirements p tr0)) =
     map path (primaryFiles (selectFilesToEdit e
       (tr0 @ [SetWorkingDirectory (baseDir p), SelectFilesToEdit requirements]))) @
     map path (secondaryFiles (selectFilesToEdit e
       (tr0 @ [SetWorkingDirectory (baseDir p), SelectFilesToEdit requirements])))"
    by (simp add: selectAndSpecify_def Let_def)
  show "prefix (initialSelectedFiles st)
        (initialSelectedFiles (fst (editCompileLoop e p spec i st tr)))"
    by (rule editCompileLoop_prefix)
  show "initialSelectedFiles (fst (editCompileLoop e p spec 0 (startState fs) tr)) = fs
       \<or> (\<exists>t. initialSelectedFiles (fst (editCompileLoop e p spec 0 (startState fs) tr)) =
                fs @ getFilesAddedInHeadCommit e t)"
    using editCompileLoop_run [of e p spec fs tr] by metis
  obtain ins evs where run:
    "snd (editCompileLoop e p spec 0 (startState fs) tr) =
       tr @ AnalyzeCompileErrors nullInstallPackages fs # ins @
       EditFilesToMeetRequirements (retryRequirements spec (Some nullInstallPackages))
         (map Some (fs @ diagnosisFiles (analyzeCompileErrors e
            (tr @ [AnalyzeCompileErrors nullInstallPackages fs])))) # evs"
    and i1: "filter isEditorCall ins = []" and e1: "filter isEditorCall evs = []"
    using editCompileLoop_run [of e p spec fs tr] by metis
  show "filter isEditorCall (newEvents tr (snd (editCompileLoop e p spec 0 (startState fs) tr))) =
       [EditFilesToMeetRequirements (retryRequirements spec (Some nullInstallPackages))
          (map Some (fs @ diagnosisFiles (analyzeCompileErrors e
             (tr @ [AnalyzeCompileErrors nullInstallPackages fs]))))]"
    by (simp only: run newEvents_append) (simp add: i1 e1)
  show "fst (editFilesToMeetRequirements e r (map Some files) tr) = Inr () \<longrightarrow>
        initialSelectedFiles (fst (snd (editThenCompile e p r files st tr))) =
          initialSelectedFiles st @
          getFilesAddedInHeadCommit e
            (snd (editFilesToMeetRequirements e r (map Some files) tr) @
             [GetFilesAddedInHeadCommit])"
    by (simp only: editThenCompile_files) simp
  show "fst (editFilesToMeetRequirements e r (map Some files) tr) \<noteq> Inr () \<longrightarrow>
        initialSelectedFiles (fst (snd (editThenCompile e p r files st tr))) =
          initialSelectedFiles st"
    by (simp only: editThenCompile_files) simp
  show "fst (roundOneEdit e p spec fs tr) = Inr () \<longrightarrow>
        initialSelectedFiles (fst (editCompileLoop e p spec 0 (startState fs) tr)) =
          fs @ getFilesAddedInHeadCommit e
                 (snd (roundOneEdit e p spec fs tr) @ [GetFilesAddedInHeadCommit])"
    by (simp only: editCompileLoop_files) simp
  show "fst (roundOneEdit e p spec fs tr) \<noteq> Inr () \<longrightarrow>
        initialSelectedFiles (fst (editCompileLoop e p spec 0 (startState fs) tr)) = fs"
    by (simp only: editCompileLoop_files) simp
qed

text \<open>In the example environment the editor returns and its commit adds \<^verbatim>\<open>n.ts\<close>; when
  every command exits with 1 the editor throws and the list is unchanged.\<close>

theorem working_file_set_accumulates_witness:
  "fst (roundOneEdit exampleEnv exampleProject ''design'' [''a.ts'', ''b.ts''] []) = Inr ()
   \<and> initialSelectedFiles
       (fst (editCompileLoop exampleEnv exampleProject ''design'' 0
          (startState [''a.ts'', ''b.ts'']) [])) = [''a.ts'', ''b.ts'', ''n.ts'']
   \<and> fst (roundOneEdit (exitCodeEnv 1) exampleProject ''design'' [''a.ts'', ''b.ts''] [])
       \<noteq> Inr ()
   \<and> initialSelectedFiles
       (fst (editCompileLoop (exitCodeEnv 1) exampleProject ''design'' 0
          (startState [''a.ts'', ''b.ts'']) [])) = [''a.ts'', ''b.ts'']
   \<and> fst (editFilesToMeetRequirements exampleEnv ''design'' (map Some [''a.ts'']) []) = Inr ()
   \<and> initialSelectedFiles
       (fst (snd (editThenCompile exampleEnv exampleProject ''design'' [''a.ts'']
          (startState [''a.ts'']) []))) = [''a.ts'', ''n.ts'']
   \<and> fst (editFilesToMeetRequirements (exitCodeEnv 1) ''design'' (map Some [''a.ts'']) [])
       \<noteq> Inr ()
   \<and> initialSelectedFiles
       (fst (snd (editThenCompile (exitCodeEnv 1) exampleProject ''design'' [''a.ts'']
          (startState [''a.ts'']) []))) = [''a.ts'']"
proof -
  have h1: "fst (roundOneEdit exampleEnv exampleProject ''design'' [''a.ts'', ''b.ts''] [])
      = Inr ()
    \<and> getFilesAddedInHeadCommit exampleEnv
        (snd (roundOneEdit exampleEnv exampleProject ''design'' [''a.ts'', ''b.ts''] []) @
         [GetFilesAddedInHeadCommit]) = [''n.ts'']"
    by code_simp
  have h2: "fst (roundOneEdit (exitCodeEnv 1) exampleProject ''design'' [''a.ts'', ''b.ts''] [])
      \<noteq> Inr ()"
    by code_simp
  have h3: "fst (editFilesToMeetRequirements exampleEnv ''design'' (map Some [''a.ts'']) [])
      = Inr ()
    \<and> getFilesAddedInHeadCommit exampleEnv
        (snd (editFilesToMeetRequirements exampleEnv ''design'' (map Some [''a.ts'']) []) @
         [GetFilesAddedInHeadCommit]) = [''n.ts'']
    \<and> initialSelectedFiles (startState [''a.ts'']) = [''a.ts'']"
    by code_simp
  have h4: "fst (editFilesToMeetRequirements (exitCodeEnv 1) ''design'' (map Some [''a.ts'']) [])
      \<noteq> Inr ()"
    by code_simp
  note t1 = working_file_set_accumulates
    [where e = exampleEnv and p = exampleProject and spec = "''design''"
       and fs = "[''a.ts'', ''b.ts'']" and tr = "[]" and r = "''design''"
       and files = "[''a.ts'']" and st = "startState [''a.ts'']"]
  note t2 = working_file_set_accumulates
    [where e = "exitCodeEnv 1" and p = exampleProject and spec = "''design''"
       and fs = "[''a.ts'', ''b.ts'']" and tr = "[]" and r = "''design''"
       and files = "[''a.ts'']" and st = "startState [''a.ts'']"]
  have c1: "initialSelectedFiles
       (fst (editCompileLoop exampleEnv exampleProject ''design'' 0
          (startState [''a.ts'', ''b.ts'']) [])) = [''a.ts'', ''b.ts'', ''n.ts'']"
    using t1 h1 by simp
  have c2: "initialSelectedFiles
       (fst (editCompileLoop (exitCodeEnv 1) exampleProject ''design'' 0
          (startState [''a.ts'', ''b.ts'']) [])) = [''a.ts'', ''b.ts'']"
    using t2 h2 by blast
  have c3: "initialSelectedFiles
       (fst (snd (editThenCompile exampleEnv exampleProject ''design'' [''a.ts'']
          (startState [''a.ts'']) []))) = [''a.ts'', ''n.ts'']"
    using t1 h3 by simp
  have c4: "initialSelectedFiles
       (fst (snd (editThenCompile (exitCodeEnv 1) exampleProject ''design'' [''a.ts'']
          (startState [''a.ts'']) []))) = [''a.ts'']"
    using t2 h4 h3 by simp
  show ?thesis using h1 h2 h3 h4 c1 c2 c3 c4 by blast
qed

text \<open>Claim C7 as stated fails: in the example environment the diagnosis names
  \<^verbatim>\<open>x.ts\<close>, and the working file set the loop leaves is \<^verbatim>\<open>a.ts\<close>, \<^verbatim>\<open>b.ts\<close>, \<^verbatim>\<open>n.ts\<close>.\<close>

theorem diagnosis_files_not_kept_counterexample:
  "map additionalFiles (diagnoses exampleEnv (snd exampleLoop)) = [Some [''x.ts'']]
   \<and> initialSelectedFiles (fst exampleLoop) = [''a.ts'', ''b.ts'', ''n.ts'']
   \<and> ''x.ts'' \<notin> set (initialSelectedFiles (fst exampleLoop))"
  by code_simp

section \<open>The test loop\<close>

lemma testLoopTry_events:
  "\<exists>evs. snd (testLoopTry e requirements p fs tr) =
           tr @ EditFilesToMeetRequirements (testRequirements requirements) (map Some fs) # evs
     \<and> filter isEditorCall evs = []"
proof -
  let ?edit = "EditFilesToMeetRequirements (testRequirements requirements) (map Some fs)"
  obtain res1 tr1 where ed:
    "editFilesToMeetRequirements e (testRequirements requirements) (map Some fs) tr = (res1, tr1)"
    by fastforce
  obtain evs1 where evs1: "tr1 = tr @ ?edit # evs1" "filter isEditorCall evs1 = []"
    using editFiles_first [of e "testRequirements requirements" "map Some fs" tr] ed by auto
  obtain res2 tr2 where c: "compile e p tr1 = (res2, tr2)" by fastforce
  have tr2: "tr2 = tr @ ?edit # (evs1 @ [Compile, ExecCommand (compileCmd p)])"
    using compile_eq [OF c] evs1 by simp
  have t3: "\<exists>evs3. snd (runTests e p tr2) = tr2 @ evs3 \<and> filter isEditorCall evs3 = []"
    by (simp add: runTests_def Let_def)
  then obtain evs3 where evs3: "snd (runTests e p tr2) = tr2 @ evs3" "filter isEditorCall evs3 = []"
    by blast
  have "snd (testLoopTry e requirements p fs tr) = tr1
      \<or> snd (testLoopTry e requirements p fs tr) = tr2
      \<or> snd (testLoopTry e requirements p fs tr) = snd (runTests e p tr2)"
    using ed c by (cases res1; cases res2) (simp_all add: testLoopTry_def)
  then consider "snd (testLoopTry e requirements p fs tr) = tr @ ?edit # evs1"
    | "snd (testLoopTry e requirements p fs tr) =
        tr @ ?edit # (evs1 @ [Compile, ExecCommand (compileCmd p)])"
    | "snd (testLoopTry e requirements p fs tr) =
        tr @ ?edit # (evs1 @ [Compile, ExecCommand (compileCmd p)] @ evs3)"
    using evs1 tr2 evs3 by auto
  then show ?thesis
  proof cases
    case 1
    then show ?thesis using evs1 by blast
  next
    case 2
    moreover have "filter isEditorCall (evs1 @ [Compile, ExecCommand (compileCmd p)]) = []"
      using evs1 by simp
    ultimately show ?thesis by blast
  next
    case 3
    moreover have "filter isEditorCall (evs1 @ [Compile, ExecCommand (compileCmd p)] @ evs3) = []"
      using evs1 evs3 by simp
    ultimately show ?thesis by blast
  qed
qed

lemma testLoopFrom_last:
  "testLoopFrom e requirements p fs (Suc 0) a tr =
     (case testLoopTry e requirements p fs tr of
        (Inr u, tr1) \<Rightarrow> (None, tr1)
      | (Inl m, tr1) \<Rightarrow>
          (Some (analyzeCompileErrors e (tr1 @ [AnalyzeCompileErrors m fs])),
           tr1 @ [AnalyzeCompileErrors m fs]))"
  by (simp add: testLoopFrom.simps [of e requirements p fs "Suc 0" a tr]
      testLoopFrom.simps [of e requirements p fs "Suc (Suc 0)"] MAX_ATTEMPTS_def Let_def
      split: prod.splits sum.splits)

lemma testLoopFrom_first:
  "testLoopFrom e requirements p fs 0 a tr =
     (case testLoopTry e requirements p fs tr of
        (Inr u, tr1) \<Rightarrow> (None, tr1)
      | (Inl m, tr1) \<Rightarrow>
          testLoopFrom e requirements p fs (Suc 0)
            (Some (analyzeCompileErrors e (tr1 @ [AnalyzeCompileErrors m fs])))
            (tr1 @ [AnalyzeCompileErrors m fs]))"
  by (simp add: testLoopFrom.simps [of e requirements p fs 0 a tr] MAX_ATTEMPTS_def Let_def
      split: prod.splits sum.splits)

text \<open>Every editor call of the test loop is the same call: the test requirements and the
  file list the loop was given. No diagnosis enters it.\<close>

lemma testLoop_editor_calls:
  "\<exists>n. n \<le> 2 \<and>
     filter isEditorCall (newEvents tr (snd (testLoop e requirements p fs tr))) =
       replicate n (EditFilesToMeetRequirements (testRequirements requirements) (map Some fs))"
proof (cases "truthy (test p)")
  case False
  then have "snd (testLoop e requirements p fs tr) = tr @ [TestLoop]"
    by (simp add: testLoop_def Let_def)
  then have "filter isEditorCall (newEvents tr (snd (testLoop e requirements p fs tr))) =
      replicate 0 (EditFilesToMeetRequirements (testRequirements requirements) (map Some fs))"
    by simp
  then show ?thesis by blast
next
  case True
  let ?edit = "EditFilesToMeetRequirements (testRequirements requirements) (map Some fs)"
  let ?tr0 = "tr @ [TestLoop]"
  have tl: "testLoop e requirements p fs tr = testLoopFrom e requirements p fs 0 None ?tr0"
    using True by (simp add: testLoop_def Let_def)
  obtain res1 tr1 where t1: "testLoopTry e requirements p fs ?tr0 = (res1, tr1)" by fastforce
  obtain evs1 where evs1: "tr1 = ?tr0 @ ?edit # evs1" "filter isEditorCall evs1 = []"
    using testLoopTry_events [of e requirements p fs ?tr0] t1 by auto
  show ?thesis
  proof (cases res1)
    case (Inr u)
    then have "snd (testLoop e requirements p fs tr) = tr @ (TestLoop # ?edit # evs1)"
      using tl t1 evs1 by (simp add: testLoopFrom_first)
    then have "filter isEditorCall (newEvents tr (snd (testLoop e requirements p fs tr))) =
        replicate 1 ?edit"
      by (simp only: newEvents_append) (simp add: evs1)
    moreover have "(1::nat) \<le> 2" by simp
    ultimately show ?thesis by blast
  next
    case (Inl m)
    let ?tr2 = "tr1 @ [AnalyzeCompileErrors m fs]"
    obtain res3 tr3 where t3: "testLoopTry e requirements p fs ?tr2 = (res3, tr3)" by fastforce
    obtain evs3 where evs3: "tr3 = ?tr2 @ ?edit # evs3" "filter isEditorCall evs3 = []"
      using testLoopTry_events [of e requirements p fs ?tr2] t3 by auto
    have "\<exists>tail. snd (testLoop e requirements p fs tr) = tr3 @ tail
        \<and> filter isEditorCall tail = []"
    proof (cases res3)
      case (Inr u)
      then have "snd (testLoop e requirements p fs tr) = tr3 @ []"
        using tl t1 \<open>res1 = Inl m\<close> t3 by (simp add: testLoopFrom_first testLoopFrom_last)
      then show ?thesis by (metis filter.simps(1))
    next
      case (Inl m3)
      then have "snd (testLoop e requirements p fs tr) = tr3 @ [AnalyzeCompileErrors m3 fs]"
        using tl t1 \<open>res1 = Inl m\<close> t3 by (simp add: testLoopFrom_first testLoopFrom_last)
      moreover have "filter isEditorCall [AnalyzeCompileErrors m3 fs] = []" by simp
      ultimately show ?thesis by blast
    qed
    then obtain tail where tail: "snd (testLoop e requirements p fs tr) = tr3 @ tail"
      "filter isEditorCall tail = []"
      by blast
    have "snd (testLoop e requirements p fs tr) =
        tr @ (TestLoop # ?edit # evs1 @ AnalyzeCompileErrors m fs # ?edit # evs3 @ tail)"
      using tail evs1 evs3 by simp
    then have "filter isEditorCall (newEvents tr (snd (testLoop e requirements p fs tr))) =
        replicate 2 ?edit"
      by (simp only: newEvents_append) (simp add: evs1 evs3 tail numeral_2_eq_2)
    moreover have "(2::nat) \<le> 2" by simp
    ultimately show ?thesis by blast
  qed
qed

text \<open>
  Claim C6 does not hold of the code. In the run whose first test run fails and whose
  diagnosis of that failure names \<^verbatim>\<open>x.ts\<close>, the workflow ends without an error after two
  compile calls and two editor calls in the test loop, as the claim says; but the second
  editor call has the same file list as the first, \<^verbatim>\<open>a.ts\<close> and \<^verbatim>\<open>b.ts\<close>, without
  \<^verbatim>\<open>x.ts\<close>.
\<close>

theorem test_retry_ignores_diagnosis:
  "fst scenarioA = Inr ()
   \<and> compileCalls (testStage (snd scenarioA)) = 2
   \<and> editorCalls (testStage (snd scenarioA)) = 2
   \<and> filter isAnalyzerCall (testStage (snd scenarioA)) =
       [AnalyzeCompileErrors (testOutput projectA testFailure) [''a.ts'', ''b.ts'']]
   \<and> map additionalFiles (diagnoses scenarioAEnv (snd scenarioA)) = [None, Some [''x.ts'']]
   \<and> filter isEditorCall (testStage (snd scenarioA)) =
       [EditFilesToMeetRequirements (testRequirements ''add a flag'') [Some ''a.ts'', Some ''b.ts''],
        EditFilesToMeetRequirements (testRequirements ''add a flag'') [Some ''a.ts'', Some ''b.ts'']]"
  by code_simp

end
